theory Spec2Isabelle
  imports Main "HOL-Library.Multiset"
begin

section \<open>The schema (supabase/migrations)\<close>

text \<open>
  The two enums of the migration, \<^verbatim>\<open>task_status\<close> and \<^verbatim>\<open>project_role\<close>. The TypeScript
  type of \<^verbatim>\<open>Task.status\<close> is the union of the same four string literals, so a status is
  one of four constructors.
\<close>

datatype task_status = Todo | In_progress | Review | Done

datatype project_role = Owner | Admin | Member

text \<open>
  A \<^verbatim>\<open>UUID\<close> column is a string on the client; a \<^verbatim>\<open>TIMESTAMP\<close> is a point on a
  discrete clock. \<^verbatim>\<open>INTEGER\<close> columns are integers: the client reads them as JavaScript
  numbers and only ever adds one to a value the store returned.
\<close>

type_synonym uuid = string
type_synonym timestamp = nat

text \<open>One record per table, one field per column, the table's initial as a prefix.\<close>

record projects_row =
  p_id :: uuid
  p_name :: string
  p_description :: "string option"
  p_owner_id :: uuid
  p_created_at :: timestamp
  p_updated_at :: timestamp

record project_members_row =
  pm_id :: uuid
  pm_project_id :: uuid
  pm_user_id :: uuid
  pm_role :: project_role
  pm_joined_at :: timestamp

record boards_row =
  b_id :: uuid
  b_project_id :: uuid
  b_name :: string
  b_description :: "string option"
  b_position :: int
  b_created_at :: timestamp
  b_updated_at :: timestamp

record tasks_row =
  t_id :: uuid
  t_board_id :: uuid
  t_title :: string
  t_description :: "string option"
  t_status :: task_status
  t_position :: int
  t_due_date :: "string option"
  t_created_by :: uuid
  t_created_at :: timestamp
  t_updated_at :: timestamp

record task_assignments_row =
  ta_id :: uuid
  ta_task_id :: uuid
  ta_user_id :: uuid
  ta_assigned_at :: timestamp

record comments_row =
  c_id :: uuid
  c_task_id :: uuid
  c_user_id :: uuid
  c_content :: string
  c_created_at :: timestamp
  c_updated_at :: timestamp

text \<open>
  The database: the rows of each table in insertion order, and the number of identifiers
  \<^verbatim>\<open>gen_random_uuid()\<close> has handed out so far.
\<close>

record db =
  public_projects :: "projects_row list"
  public_project_members :: "project_members_row list"
  public_boards :: "boards_row list"
  public_tasks :: "tasks_row list"
  public_task_assignments :: "task_assignments_row list"
  public_comments :: "comments_row list"
  serial :: nat

section \<open>The store as the client sees it\<close>

text \<open>
  A toast: \<^verbatim>\<open>toast({title, description, variant})\<close>; \<open>destructive\<close> is
  \<^verbatim>\<open>variant: 'destructive'\<close>.
\<close>

record toast =
  title :: string
  description :: string
  destructive :: bool

definition toast_error :: "string \<Rightarrow> toast" where
  "toast_error msg = \<lparr>title = ''Error'', description = msg, destructive = True\<rparr>"

definition toast_success :: "string \<Rightarrow> toast" where
  "toast_success msg = \<lparr>title = ''Success'', description = msg, destructive = False\<rparr>"

text \<open>
  The payload of \<^verbatim>\<open>.update({...})\<close> on \<^verbatim>\<open>tasks\<close>: a column is set when its key is
  present. The two nullable columns carry the value to store, \<open>None\<close> for \<^verbatim>\<open>null\<close>.
\<close>

record tasks_patch =
  set_title :: "string option"
  set_description :: "string option option"
  set_status :: "task_status option"
  set_position :: "int option"
  set_due_date :: "string option option"

text \<open>
  The requests the three components send. \<^verbatim>\<open>newTaskStatus\<close> is a string that is
  \<^verbatim>\<open>''\<close> until a column's button sets it, hence the optional status of an inserted task.
\<close>

datatype request =
    Select_projects
  | Insert_project string string uuid
  | Insert_project_member uuid uuid project_role
  | Insert_board uuid string string
  | Select_tasks uuid
  | Insert_task uuid string string "task_status option" int uuid
  | Update_task uuid tasks_patch
  | Delete_task_assignment uuid uuid
  | Insert_task_assignment uuid uuid

fun is_write :: "request \<Rightarrow> bool" where
  "is_write Select_projects = False"
| "is_write (Select_tasks _) = False"
| "is_write _ = True"

text \<open>
  What a handler cannot decide: the signed-in user (\<^verbatim>\<open>useAuth().user\<close>, which is also
  \<^verbatim>\<open>auth.uid()\<close> in the store), the store's clock and identifier generator, and
  \<open>refuses n rq\<close>: the error with which the store answers the request \<open>rq\<close>, sent after
  \<open>n\<close> earlier ones, for a reason that is not modelled below: the transport, a foreign
  key, a value outside the range of its column, a row-level-security policy on a write
  or on the tasks of a board (these policies read \<^verbatim>\<open>project_members\<close> as well). \<open>None\<close>
  lets the request through to the store below.
\<close>

record env =
  user :: "uuid option"
  now :: timestamp
  gen_random_uuid :: "nat \<Rightarrow> uuid"
  refuses :: "nat \<Rightarrow> request \<Rightarrow> string option"

text \<open>
  What every handler reads and writes besides its component's state: the database, the
  requests sent so far and the toast queue.
\<close>

record ctx =
  store :: db
  log :: "request list"
  toasts :: "toast list"

definition toast_call :: "toast \<Rightarrow> ctx \<Rightarrow> ctx" where
  "toast_call t c = c\<lparr>toasts := toasts c @ [t]\<rparr>"

definition send :: "env \<Rightarrow> request \<Rightarrow> ctx \<Rightarrow> string option \<times> ctx" where
  "send e rq c = (refuses e (length (log c)) rq, c\<lparr>log := log c @ [rq]\<rparr>)"

definition fresh_uuid :: "env \<Rightarrow> db \<Rightarrow> uuid" where
  "fresh_uuid e d = gen_random_uuid e (serial d)"

subsection \<open>Row-level security on projects and project_members\<close>

text \<open>
  The policy \<^verbatim>\<open>"Users can view projects they're members of"\<close>:
  \<^verbatim>\<open>auth.uid() IN (SELECT user_id FROM public.project_members WHERE project_id = id)
  OR owner_id = auth.uid()\<close>. The subquery ranges over \<^verbatim>\<open>project_members\<close>, which has a
  column \<^verbatim>\<open>id\<close> of its own, so the unqualified \<^verbatim>\<open>id\<close> is that column (SQL resolves a
  name in the innermost query that has it), not the \<^verbatim>\<open>id\<close> of the project. The policies
  on \<^verbatim>\<open>boards\<close> write \<^verbatim>\<open>boards.project_id\<close> in the same place.
  The specification calls this predicate \<^verbatim>\<open>canView(identity, project, memberships)\<close>;
  \<open>memberships\<close> are the rows the subquery ranges over.
\<close>

definition canView :: "uuid \<Rightarrow> projects_row \<Rightarrow> project_members_row list \<Rightarrow> bool" where
  "canView uid project memberships =
     (uid \<in> set (map pm_user_id (filter (\<lambda>m. pm_project_id m = pm_id m) memberships))
      \<or> p_owner_id project = uid)"

text \<open>
  Which rows the subquery ranges over is decided by row-level security too: the store
  applies the SELECT policies of \<^verbatim>\<open>project_members\<close> to it. One of them,
  \<^verbatim>\<open>"Users can view project members for their projects"\<close>, is
  \<^verbatim>\<open>auth.uid() IN (SELECT user_id FROM public.project_members
  WHERE project_id = project_members.project_id)\<close>: a policy on \<^verbatim>\<open>project_members\<close> whose
  subquery reads \<^verbatim>\<open>project_members\<close>. The store cannot expand such a policy and answers
  every statement that needs it with error 42P17.
\<close>

definition infinite_recursion :: string where
  "infinite_recursion = ''infinite recursion detected in policy for relation project_members''"

subsection \<open>The requests\<close>

text \<open>
  \<^verbatim>\<open>from('projects').select('*, project_members!inner(id)').order('created_at',
  {ascending: false})\<close>: the projects the policy lets the caller see, inner-joined with
  their member rows, newest first. The statement applies the policy on \<^verbatim>\<open>projects\<close>, whose
  subquery reads \<^verbatim>\<open>project_members\<close>, and embeds \<^verbatim>\<open>project_members\<close>: it needs the SELECT
  policies of \<^verbatim>\<open>project_members\<close>, so a request that reaches the store is answered with
  error 42P17 and no rows, whatever the tables hold. The specification calls the read
  \<^verbatim>\<open>listProjectsVisibleTo(identity)\<close>.
\<close>

definition from_projects_select ::
  "env \<Rightarrow> ctx \<Rightarrow> (string + (projects_row \<times> uuid list) list) \<times> ctx" where
  "from_projects_select e c =
     (case send e Select_projects c of
        (Some err, c') \<Rightarrow> (Inl err, c')
      | (None, c') \<Rightarrow> (Inl infinite_recursion, c'))"

text \<open>\<^verbatim>\<open>from('projects').insert([{name, description, owner_id}]).select().single()\<close>.\<close>

definition from_projects_insert ::
  "env \<Rightarrow> string \<Rightarrow> string \<Rightarrow> uuid \<Rightarrow> ctx \<Rightarrow> (string + projects_row) \<times> ctx" where
  "from_projects_insert e name descr owner c =
     (case send e (Insert_project name descr owner) c of
        (Some err, c') \<Rightarrow> (Inl err, c')
      | (None, c') \<Rightarrow>
          (let d = store c';
               r = \<lparr>p_id = fresh_uuid e d, p_name = name, p_description = Some descr,
                    p_owner_id = owner, p_created_at = now e, p_updated_at = now e\<rparr>
           in (Inr r, c'\<lparr>store := d\<lparr>public_projects := public_projects d @ [r],
                                       serial := Suc (serial d)\<rparr>\<rparr>)))"

definition duplicate_key :: "string \<Rightarrow> string" where
  "duplicate_key constraint =
     ''duplicate key value violates unique constraint '' @ constraint"

text \<open>
  \<^verbatim>\<open>from('project_members').insert([{project_id, user_id, role}])\<close>, under
  \<^verbatim>\<open>UNIQUE(project_id, user_id)\<close>.
\<close>

definition from_project_members_insert ::
  "env \<Rightarrow> uuid \<Rightarrow> uuid \<Rightarrow> project_role \<Rightarrow> ctx \<Rightarrow> string option \<times> ctx" where
  "from_project_members_insert e pid uid role c =
     (case send e (Insert_project_member pid uid role) c of
        (Some err, c') \<Rightarrow> (Some err, c')
      | (None, c') \<Rightarrow>
          (let d = store c' in
           if (pid, uid) \<in> set (map (\<lambda>m. (pm_project_id m, pm_user_id m)) (public_project_members d))
           then (Some (duplicate_key ''project_members_project_id_user_id_key''), c')
           else (None, c'\<lparr>store := d\<lparr>public_project_members := public_project_members d @
                   [\<lparr>pm_id = fresh_uuid e d, pm_project_id = pid, pm_user_id = uid,
                     pm_role = role, pm_joined_at = now e\<rparr>],
                   serial := Suc (serial d)\<rparr>\<rparr>)))"

text \<open>\<^verbatim>\<open>from('boards').insert([{project_id, name, description}])\<close>; the position defaults to 0.\<close>

definition from_boards_insert ::
  "env \<Rightarrow> uuid \<Rightarrow> string \<Rightarrow> string \<Rightarrow> ctx \<Rightarrow> string option \<times> ctx" where
  "from_boards_insert e pid name descr c =
     (case send e (Insert_board pid name descr) c of
        (Some err, c') \<Rightarrow> (Some err, c')
      | (None, c') \<Rightarrow>
          (let d = store c' in
           (None, c'\<lparr>store := d\<lparr>public_boards := public_boards d @
                   [\<lparr>b_id = fresh_uuid e d, b_project_id = pid, b_name = name,
                     b_description = Some descr, b_position = 0,
                     b_created_at = now e, b_updated_at = now e\<rparr>],
                   serial := Suc (serial d)\<rparr>\<rparr>)))"

text \<open>
  \<^verbatim>\<open>from('tasks').select('*, task_assignments!left(user_id, ...), comments!left(id)')
  .eq('board_id', boardId).order('position')\<close>: each row of the board with the user ids of
  its assignments and the ids of its comments.
\<close>

definition from_tasks_select ::
  "env \<Rightarrow> uuid \<Rightarrow> ctx \<Rightarrow> (string + (tasks_row \<times> uuid list \<times> uuid list) list) \<times> ctx" where
  "from_tasks_select e boardId c =
     (case send e (Select_tasks boardId) c of
        (Some err, c') \<Rightarrow> (Inl err, c')
      | (None, c') \<Rightarrow>
          (let d = store c' in
           (Inr (map (\<lambda>t. (t,
                    map ta_user_id (filter (\<lambda>a. ta_task_id a = t_id t) (public_task_assignments d)),
                    map c_id (filter (\<lambda>k. c_task_id k = t_id t) (public_comments d))))
                  (sort_key t_position (filter (\<lambda>t. t_board_id t = boardId) (public_tasks d)))),
            c')))"

text \<open>
  \<^verbatim>\<open>from('tasks').insert([{board_id, title, description, status, position, created_by}])\<close>.
  The empty string is not a value of the enum \<^verbatim>\<open>task_status\<close>.
\<close>

definition from_tasks_insert ::
  "env \<Rightarrow> uuid \<Rightarrow> string \<Rightarrow> string \<Rightarrow> task_status option \<Rightarrow> int \<Rightarrow> uuid \<Rightarrow> ctx
     \<Rightarrow> string option \<times> ctx" where
  "from_tasks_insert e boardId ttl descr st pos creator c =
     (case send e (Insert_task boardId ttl descr st pos creator) c of
        (Some err, c') \<Rightarrow> (Some err, c')
      | (None, c') \<Rightarrow>
          (case st of
             None \<Rightarrow> (Some ''invalid input value for enum task_status'', c')
           | Some s \<Rightarrow>
               (let d = store c' in
                (None, c'\<lparr>store := d\<lparr>public_tasks := public_tasks d @
                   [\<lparr>t_id = fresh_uuid e d, t_board_id = boardId, t_title = ttl,
                     t_description = Some descr, t_status = s, t_position = pos,
                     t_due_date = None, t_created_by = creator,
                     t_created_at = now e, t_updated_at = now e\<rparr>],
                   serial := Suc (serial d)\<rparr>\<rparr>))))"

text \<open>
  \<^verbatim>\<open>from('tasks').update(patch).eq('id', i)\<close>: every row with that id takes the columns of
  the patch, and the trigger \<^verbatim>\<open>update_tasks_updated_at\<close> (\<^verbatim>\<open>BEFORE UPDATE ... FOR EACH ROW\<close>)
  sets \<^verbatim>\<open>NEW.updated_at = now()\<close>.
\<close>

definition apply_patch :: "tasks_patch \<Rightarrow> tasks_row \<Rightarrow> tasks_row" where
  "apply_patch p t =
     t\<lparr>t_title := (case set_title p of None \<Rightarrow> t_title t | Some v \<Rightarrow> v),
       t_description := (case set_description p of None \<Rightarrow> t_description t | Some v \<Rightarrow> v),
       t_status := (case set_status p of None \<Rightarrow> t_status t | Some v \<Rightarrow> v),
       t_position := (case set_position p of None \<Rightarrow> t_position t | Some v \<Rightarrow> v),
       t_due_date := (case set_due_date p of None \<Rightarrow> t_due_date t | Some v \<Rightarrow> v)\<rparr>"

definition update_updated_at_column :: "env \<Rightarrow> tasks_row \<Rightarrow> tasks_row" where
  "update_updated_at_column e new = new\<lparr>t_updated_at := now e\<rparr>"

definition from_tasks_update :: "env \<Rightarrow> uuid \<Rightarrow> tasks_patch \<Rightarrow> ctx \<Rightarrow> string option \<times> ctx" where
  "from_tasks_update e i p c =
     (case send e (Update_task i p) c of
        (Some err, c') \<Rightarrow> (Some err, c')
      | (None, c') \<Rightarrow>
          (let d = store c' in
           (None, c'\<lparr>store := d\<lparr>public_tasks :=
              map (\<lambda>t. if t_id t = i then update_updated_at_column e (apply_patch p t) else t)
                (public_tasks d)\<rparr>\<rparr>)))"

text \<open>\<^verbatim>\<open>from('task_assignments').delete().eq('task_id', t).eq('user_id', u)\<close>.\<close>

definition from_task_assignments_delete :: "env \<Rightarrow> uuid \<Rightarrow> uuid \<Rightarrow> ctx \<Rightarrow> string option \<times> ctx" where
  "from_task_assignments_delete e tid uid c =
     (case send e (Delete_task_assignment tid uid) c of
        (Some err, c') \<Rightarrow> (Some err, c')
      | (None, c') \<Rightarrow>
          (let d = store c' in
           (None, c'\<lparr>store := d\<lparr>public_task_assignments :=
              filter (\<lambda>a. \<not> (ta_task_id a = tid \<and> ta_user_id a = uid))
                (public_task_assignments d)\<rparr>\<rparr>)))"

text \<open>
  \<^verbatim>\<open>from('task_assignments').insert([{task_id, user_id}])\<close>, under
  \<^verbatim>\<open>UNIQUE(task_id, user_id)\<close>.
\<close>

definition assignment_keys :: "db \<Rightarrow> (uuid \<times> uuid) list" where
  "assignment_keys d = map (\<lambda>a. (ta_task_id a, ta_user_id a)) (public_task_assignments d)"

definition from_task_assignments_insert :: "env \<Rightarrow> uuid \<Rightarrow> uuid \<Rightarrow> ctx \<Rightarrow> string option \<times> ctx" where
  "from_task_assignments_insert e tid uid c =
     (case send e (Insert_task_assignment tid uid) c of
        (Some err, c') \<Rightarrow> (Some err, c')
      | (None, c') \<Rightarrow>
          (let d = store c' in
           if (tid, uid) \<in> set (assignment_keys d)
           then (Some (duplicate_key ''task_assignments_task_id_user_id_key''), c')
           else (None, c'\<lparr>store := d\<lparr>public_task_assignments := public_task_assignments d @
                   [\<lparr>ta_id = fresh_uuid e d, ta_task_id = tid, ta_user_id = uid,
                     ta_assigned_at = now e\<rparr>],
                   serial := Suc (serial d)\<rparr>\<rparr>)))"

section \<open>The board page (src/pages/ProjectBoard.tsx)\<close>

text \<open>
  The client's \<^verbatim>\<open>Task\<close>: the row as selected (\<^verbatim>\<open>...task\<close>), the user ids of the embedded
  \<^verbatim>\<open>task_assignments\<close> and the number of embedded comments. The embedded profile of an
  assignee is display text only and is left out.
\<close>

record Task =
  row :: tasks_row
  assignees :: "uuid list"
  comments_count :: nat

abbreviation status :: "Task \<Rightarrow> task_status" where
  "status t \<equiv> t_status (row t)"

abbreviation position :: "Task \<Rightarrow> int" where
  "position t \<equiv> t_position (row t)"

definition STATUS_COLUMNS :: "task_status list" where
  "STATUS_COLUMNS = [Todo, In_progress, Review, Done]"

text \<open>
  \<^verbatim>\<open>tasks.filter(task => task.status === status).sort((a, b) => a.position - b.position)\<close>.
  \<^verbatim>\<open>Array.prototype.sort\<close> is stable, as insertion by key is.
\<close>

definition getTasksByStatus :: "Task list \<Rightarrow> task_status \<Rightarrow> Task list" where
  "getTasksByStatus ts s = sort_key position (filter (\<lambda>t. status t = s) ts)"

text \<open>\<^verbatim>\<open>Math.max(...xs, d)\<close>: the greatest of the spread arguments and the last one.\<close>

definition Math_max :: "int list \<Rightarrow> int \<Rightarrow> int" where
  "Math_max xs d = fold max xs d"

text \<open>
  The position \<^verbatim>\<open>handleCreateTask\<close> gives a new task, as a function of the tasks of the
  target status: \<^verbatim>\<open>Math.max(...existing.map(t => t.position), -1) + 1\<close>. The handler
  has the expression inline; the specification calls it \<^verbatim>\<open>computeInsertPosition\<close>.
\<close>

definition computeInsertPosition :: "Task list \<Rightarrow> int" where
  "computeInsertPosition existing = Math_max (map position existing) (- 1) + 1"

text \<open>The state of the component that the handlers below read or set.\<close>

record ProjectBoard =
  board :: "boards_row option"
  tasks :: "Task list"
  isCreateTaskOpen :: bool
  newTaskStatus :: "task_status option"
  newTask :: "string \<times> string"

text \<open>
  \<^verbatim>\<open>fetchTasks\<close>: on an error the toast is all that happens; \<^verbatim>\<open>setTasks\<close> is called on
  success only.
\<close>

definition fetchTasks :: "env \<Rightarrow> uuid \<Rightarrow> ProjectBoard \<times> ctx \<Rightarrow> ProjectBoard \<times> ctx" where
  "fetchTasks e boardId = (\<lambda>(page, c).
     case from_tasks_select e boardId c of
       (Inl err, c') \<Rightarrow> (page, toast_call (toast_error ''Failed to fetch tasks'') c')
     | (Inr data, c') \<Rightarrow>
         (page\<lparr>tasks := map (\<lambda>(t, task_assignments, comments).
                    \<lparr>row = t, assignees = task_assignments, comments_count = length comments\<rparr>)
                  data\<rparr>, c'))"

text \<open>The message of the \<^verbatim>\<open>TypeError\<close> that \<^verbatim>\<open>user!.id\<close> throws when there is no user.\<close>

definition null_user :: string where
  "null_user = ''Cannot read properties of null''"

definition handleCreateTask :: "env \<Rightarrow> ProjectBoard \<times> ctx \<Rightarrow> ProjectBoard \<times> ctx" where
  "handleCreateTask e = (\<lambda>(page, c).
     case board page of
       None \<Rightarrow> (page, c)
     | Some b \<Rightarrow>
         (let pos = computeInsertPosition
                      (filter (\<lambda>t. Some (status t) = newTaskStatus page) (tasks page))
          in case user e of
               None \<Rightarrow> (page, toast_call (toast_error null_user) c)
             | Some uid \<Rightarrow>
                 (case from_tasks_insert e (b_id b) (fst (newTask page)) (snd (newTask page))
                         (newTaskStatus page) pos uid c of
                    (Some err, c') \<Rightarrow> (page, toast_call (toast_error err) c')
                  | (None, c') \<Rightarrow>
                      fetchTasks e (b_id b)
                        (page\<lparr>newTask := ([], []), isCreateTaskOpen := False\<rparr>,
                         toast_call (toast_success ''Task created successfully!'') c'))))"

text \<open>
  The drop result of the drag-and-drop library. A droppable is a status column
  (\<^verbatim>\<open>droppableId={column.id}\<close>), an index is a place in the rendered column.
\<close>

record DraggableLocation =
  droppableId :: task_status
  index :: nat

record DropResult =
  draggableId :: uuid
  source :: DraggableLocation
  destination :: "DraggableLocation option"

definition move_patch :: "DraggableLocation \<Rightarrow> tasks_patch" where
  "move_patch d =
     \<lparr>set_title = None, set_description = None, set_status = Some (droppableId d),
      set_position = Some (int (index d)), set_due_date = None\<rparr>"

definition handleDragEnd :: "env \<Rightarrow> DropResult \<Rightarrow> ProjectBoard \<times> ctx \<Rightarrow> ProjectBoard \<times> ctx" where
  "handleDragEnd e result = (\<lambda>(page, c).
     case destination result of
       None \<Rightarrow> (page, c)
     | Some d \<Rightarrow>
         (case board page of
            None \<Rightarrow> (page, c)
          | Some b \<Rightarrow>
              if droppableId (source result) = droppableId d \<and> index (source result) = index d
              then (page, c)
              else (case from_tasks_update e (draggableId result) (move_patch d) c of
                      (Some err, c') \<Rightarrow> (page, toast_call (toast_error ''Failed to update task'') c')
                    | (None, c') \<Rightarrow> fetchTasks e (b_id b) (page, c'))))"

section \<open>The task dialog (src/components/TaskModal.tsx)\<close>

text \<open>
  The dialog is rendered by the board page with the selected task as the prop \<^verbatim>\<open>task\<close>
  and \<^verbatim>\<open>onTaskUpdate = () => board && fetchTasks(board.id)\<close>. The prop is the object
  that was selected: a later \<^verbatim>\<open>fetchTasks\<close> does not replace it.
\<close>

record TaskModal =
  task :: Task
  editedTask :: Task
  isLoading :: bool

definition onTaskUpdate :: "env \<Rightarrow> ProjectBoard \<times> ctx \<Rightarrow> ProjectBoard \<times> ctx" where
  "onTaskUpdate e = (\<lambda>(page, c).
     case board page of None \<Rightarrow> (page, c) | Some b \<Rightarrow> fetchTasks e (b_id b) (page, c))"

definition save_patch :: "Task \<Rightarrow> tasks_patch" where
  "save_patch t =
     \<lparr>set_title = Some (t_title (row t)), set_description = Some (t_description (row t)),
      set_status = Some (t_status (row t)), set_position = None,
      set_due_date = Some (t_due_date (row t))\<rparr>"

definition handleSaveTask ::
  "env \<Rightarrow> TaskModal \<times> ProjectBoard \<times> ctx \<Rightarrow> TaskModal \<times> ProjectBoard \<times> ctx" where
  "handleSaveTask e = (\<lambda>(modal, page, c).
     case from_tasks_update e (t_id (row (task modal))) (save_patch (editedTask modal)) c of
       (Some err, c') \<Rightarrow> (modal\<lparr>isLoading := False\<rparr>, page, toast_call (toast_error err) c')
     | (None, c') \<Rightarrow>
         (case onTaskUpdate e (page, toast_call (toast_success ''Task updated successfully!'') c') of
            (page', c'') \<Rightarrow> (modal\<lparr>isLoading := False\<rparr>, page', c'')))"

text \<open>
  \<^verbatim>\<open>handleAssignUser\<close>. \<^verbatim>\<open>onTaskUpdate()\<close> starts a fetch that is not awaited, so the
  success toast is queued before the fetch can fail and queue its own.
\<close>

definition handleAssignUser ::
  "env \<Rightarrow> uuid \<Rightarrow> TaskModal \<times> ProjectBoard \<times> ctx \<Rightarrow> TaskModal \<times> ProjectBoard \<times> ctx" where
  "handleAssignUser e userId = (\<lambda>(modal, page, c).
     let isAssigned = (userId \<in> set (assignees (task modal)));
         tid = t_id (row (task modal))
     in case (if isAssigned then from_task_assignments_delete e tid userId c
              else from_task_assignments_insert e tid userId c) of
          (Some err, c') \<Rightarrow> (modal, page, toast_call (toast_error err) c')
        | (None, c') \<Rightarrow>
            (case onTaskUpdate e
                    (page, toast_call (toast_success
                       (if isAssigned then ''User unassigned'' else ''User assigned to task'')) c') of
               (page', c'') \<Rightarrow> (modal, page', c'')))"

section \<open>The dashboard (component Dashboard)\<close>

record Project =
  prow :: projects_row
  member_count :: nat

record Dashboard =
  projects :: "Project list"
  loading :: bool
  isCreateDialogOpen :: bool
  newProject :: "string \<times> string"

text \<open>
  \<^verbatim>\<open>fetchProjects\<close>: on an error the toast is all that happens before \<^verbatim>\<open>finally\<close> clears
  \<^verbatim>\<open>loading\<close>; \<^verbatim>\<open>setProjects\<close> is called on success only.
\<close>

definition fetchProjects :: "env \<Rightarrow> Dashboard \<times> ctx \<Rightarrow> Dashboard \<times> ctx" where
  "fetchProjects e = (\<lambda>(page, c).
     case from_projects_select e c of
       (Inl err, c') \<Rightarrow>
         (page\<lparr>loading := False\<rparr>, toast_call (toast_error ''Failed to fetch projects'') c')
     | (Inr data, c') \<Rightarrow>
         (page\<lparr>projects := map (\<lambda>(p, members). \<lparr>prow = p, member_count = length members\<rparr>) data,
               loading := False\<rparr>, c'))"

definition handleCreateProject :: "env \<Rightarrow> Dashboard \<times> ctx \<Rightarrow> Dashboard \<times> ctx" where
  "handleCreateProject e = (\<lambda>(page, c).
     case user e of
       None \<Rightarrow> (page, toast_call (toast_error null_user) c)
     | Some uid \<Rightarrow>
         (case from_projects_insert e (fst (newProject page)) (snd (newProject page)) uid c of
            (Inl projectError, c1) \<Rightarrow> (page, toast_call (toast_error projectError) c1)
          | (Inr project, c1) \<Rightarrow>
              (case from_project_members_insert e (p_id project) uid Owner c1 of
                 (Some memberError, c2) \<Rightarrow> (page, toast_call (toast_error memberError) c2)
               | (None, c2) \<Rightarrow>
                   (case from_boards_insert e (p_id project) ''Main Board'' ''Default project board'' c2 of
                      (Some boardError, c3) \<Rightarrow> (page, toast_call (toast_error boardError) c3)
                    | (None, c3) \<Rightarrow>
                        fetchProjects e
                          (page\<lparr>newProject := ([], []), isCreateDialogOpen := False\<rparr>,
                           toast_call (toast_success ''Project created successfully!'') c3)))))"

section \<open>Positions within a column\<close>

text \<open>
  The partition of a task is its board and status. Positions are unique when no two rows
  agree on board, status and position; they are renumbered when the positions of every
  partition, in ascending order, are 0, 1, ..., n - 1.
\<close>

definition partition_key :: "tasks_row \<Rightarrow> uuid \<times> task_status \<times> int" where
  "partition_key t = (t_board_id t, t_status t, t_position t)"

definition unique_positions :: "tasks_row list \<Rightarrow> bool" where
  "unique_positions ts = distinct (map partition_key ts)"

definition renumbered :: "tasks_row list \<Rightarrow> bool" where
  "renumbered ts =
     list_all (\<lambda>t. sort (map t_position
                  (filter (\<lambda>t'. t_board_id t' = t_board_id t \<and> t_status t' = t_status t) ts))
                = map int [0 ..< length
                  (filter (\<lambda>t'. t_board_id t' = t_board_id t \<and> t_status t' = t_status t) ts)]) ts"

text \<open>
  \<open>occupied ts i s k\<close>: a row other than the task \<open>i\<close>, on the board of the task \<open>i\<close>,
  has status \<open>s\<close> and position \<open>k\<close>. \<open>place i s k n\<close> is what an accepted move does to a
  row: the task \<open>i\<close> takes status \<open>s\<close> and position \<open>k\<close> (and the trigger's time \<open>n\<close>),
  every other row stays as it is.
\<close>

definition occupied :: "tasks_row list \<Rightarrow> uuid \<Rightarrow> task_status \<Rightarrow> int \<Rightarrow> bool" where
  "occupied ts i s k =
     list_ex (\<lambda>t0. t_id t0 = i \<and>
        list_ex (\<lambda>t. t_id t \<noteq> i \<and> t_board_id t = t_board_id t0 \<and> t_status t = s
           \<and> t_position t = k) ts) ts"

definition place :: "uuid \<Rightarrow> task_status \<Rightarrow> int \<Rightarrow> timestamp \<Rightarrow> tasks_row \<Rightarrow> tasks_row" where
  "place i s k n t = (if t_id t = i then t\<lparr>t_status := s, t_position := k, t_updated_at := n\<rparr> else t)"

section \<open>Example data\<close>

definition ex_row :: "uuid \<Rightarrow> task_status \<Rightarrow> int \<Rightarrow> tasks_row" where
  "ex_row i s k =
     \<lparr>t_id = i, t_board_id = ''b1'', t_title = i, t_description = None, t_status = s,
      t_position = k, t_due_date = None, t_created_by = ''u1'', t_created_at = 0,
      t_updated_at = 0\<rparr>"

definition ex_task :: "uuid \<Rightarrow> task_status \<Rightarrow> int \<Rightarrow> Task" where
  "ex_task i s k = \<lparr>row = ex_row i s k, assignees = [], comments_count = 0\<rparr>"

definition ex_env :: env where
  "ex_env = \<lparr>user = Some ''u1'', now = 7,
     gen_random_uuid = (\<lambda>n. ''id'' @ replicate n (CHR ''+'')),
     refuses = (\<lambda>n rq. None)\<rparr>"

definition ex_env_down :: env where
  "ex_env_down = ex_env\<lparr>refuses := (\<lambda>n rq. Some ''Failed to fetch'')\<rparr>"

definition ex_env_second :: env where
  "ex_env_second = ex_env\<lparr>refuses := (\<lambda>n rq. if n = 1 then Some ''permission denied'' else None)\<rparr>"

definition ex_board :: boards_row where
  "ex_board = \<lparr>b_id = ''b1'', b_project_id = ''p1'', b_name = ''Main Board'',
     b_description = None, b_position = 0, b_created_at = 0, b_updated_at = 0\<rparr>"

definition ex_project :: projects_row where
  "ex_project = \<lparr>p_id = ''p1'', p_name = ''Acme'', p_description = None, p_owner_id = ''u1'',
     p_created_at = 0, p_updated_at = 0\<rparr>"

definition ex_db :: db where
  "ex_db = \<lparr>public_projects = [ex_project], public_project_members = [],
     public_boards = [ex_board],
     public_tasks = [ex_row ''a'' Todo 0, ex_row ''b'' Todo 1, ex_row ''c'' Done 0],
     public_task_assignments = [], public_comments = [], serial = 0\<rparr>"

definition ex_ctx :: ctx where
  "ex_ctx = \<lparr>store = ex_db, log = [], toasts = []\<rparr>"

definition ex_page :: ProjectBoard where
  "ex_page = \<lparr>board = Some ex_board,
     tasks = [ex_task ''a'' Todo 0, ex_task ''b'' Todo 1, ex_task ''c'' Done 0],
     isCreateTaskOpen = False, newTaskStatus = None, newTask = ([], [])\<rparr>"

definition ex_drop :: "uuid \<Rightarrow> task_status \<Rightarrow> nat \<Rightarrow> task_status \<Rightarrow> nat \<Rightarrow> DropResult" where
  "ex_drop i s k s' k' =
     \<lparr>draggableId = i, source = \<lparr>droppableId = s, index = k\<rparr>,
      destination = Some \<lparr>droppableId = s', index = k'\<rparr>\<rparr>"

definition ex_modal :: TaskModal where
  "ex_modal = \<lparr>task = ex_task ''a'' Todo 0,
     editedTask = \<lparr>row = (ex_row ''a'' Todo 0)\<lparr>t_title := ''A'', t_status := Done\<rparr>,
                   assignees = [], comments_count = 0\<rparr>,
     isLoading = False\<rparr>"

definition ex_dash :: Dashboard where
  "ex_dash = \<lparr>projects = [], loading = True, isCreateDialogOpen = True,
     newProject = (''Acme'', ''d'')\<rparr>"

definition ex_member :: "uuid \<Rightarrow> uuid \<Rightarrow> uuid \<Rightarrow> project_role \<Rightarrow> project_members_row" where
  "ex_member i p u r = \<lparr>pm_id = i, pm_project_id = p, pm_user_id = u, pm_role = r, pm_joined_at = 0\<rparr>"

definition ex_db_joined :: db where
  "ex_db_joined = ex_db\<lparr>public_project_members :=
     [ex_member ''m1'' ''p1'' ''u1'' Owner, ex_member ''m2'' ''p1'' ''u2'' Member]\<rparr>"

definition ex_modal_listed :: TaskModal where
  "ex_modal_listed = ex_modal\<lparr>task := (ex_task ''a'' Todo 0)\<lparr>assignees := [''u2'']\<rparr>\<rparr>"

definition ex_ctx_assigned :: ctx where
  "ex_ctx_assigned = ex_ctx\<lparr>store := ex_db\<lparr>public_task_assignments :=
     [\<lparr>ta_id = ''x'', ta_task_id = ''a'', ta_user_id = ''u2'', ta_assigned_at = 0\<rparr>]\<rparr>\<rparr>"

section \<open>What a request leaves behind\<close>

lemma from_tasks_select_store: "store (snd (from_tasks_select e b c)) = store c"
  by (simp add: from_tasks_select_def send_def Let_def split: option.splits)

lemma from_tasks_select_log: "log (snd (from_tasks_select e b c)) = log c @ [Select_tasks b]"
  by (simp add: from_tasks_select_def send_def Let_def split: option.splits)

lemma from_tasks_select_refused:
  "refuses e (length (log c)) (Select_tasks b) = Some err \<Longrightarrow>
   from_tasks_select e b c = (Inl err, c\<lparr>log := log c @ [Select_tasks b]\<rparr>)"
  by (simp add: from_tasks_select_def send_def)

lemma fetchTasks_store: "store (snd (fetchTasks e b (page, c))) = store c"
  using from_tasks_select_store [of e b c]
  by (auto simp: fetchTasks_def toast_call_def split: prod.splits sum.splits)

lemma fetchTasks_log: "log (snd (fetchTasks e b (page, c))) = log c @ [Select_tasks b]"
  using from_tasks_select_log [of e b c]
  by (auto simp: fetchTasks_def toast_call_def split: prod.splits sum.splits)

lemma fetchTasks_refused:
  "refuses e (length (log c)) (Select_tasks b) = Some err \<Longrightarrow>
   fetchTasks e b (page, c) =
     (page, c\<lparr>log := log c @ [Select_tasks b],
              toasts := toasts c @ [toast_error ''Failed to fetch tasks'']\<rparr>)"
  by (simp add: fetchTasks_def from_tasks_select_refused toast_call_def)

lemma from_tasks_update_refused:
  "refuses e (length (log c)) (Update_task i p) = Some err \<Longrightarrow>
   from_tasks_update e i p c = (Some err, c\<lparr>log := log c @ [Update_task i p]\<rparr>)"
  by (simp add: from_tasks_update_def send_def)

lemma from_tasks_update_accepted:
  "refuses e (length (log c)) (Update_task i p) = None \<Longrightarrow>
   from_tasks_update e i p c =
     (None, c\<lparr>log := log c @ [Update_task i p],
              store := (store c)\<lparr>public_tasks :=
                map (\<lambda>t. if t_id t = i then update_updated_at_column e (apply_patch p t) else t)
                  (public_tasks (store c))\<rparr>\<rparr>)"
  by (simp add: from_tasks_update_def send_def Let_def)

lemma drop_read: "filter is_write (drop k [Select_tasks b]) = []"
  by (cases k) simp_all

lemma onTaskUpdate_store: "store (snd (onTaskUpdate e (page, c))) = store c"
  by (simp add: onTaskUpdate_def fetchTasks_store split: option.splits)

lemma onTaskUpdate_writes:
  "filter is_write (drop n (log (snd (onTaskUpdate e (page, c))))) = filter is_write (drop n (log c))"
  by (simp add: onTaskUpdate_def fetchTasks_log drop_read split: option.splits)

section \<open>Columns\<close>

lemma filter_status_cover:
  "filter_mset (\<lambda>t. status t = Todo) M + filter_mset (\<lambda>t. status t = In_progress) M
     + filter_mset (\<lambda>t. status t = Review) M + filter_mset (\<lambda>t. status t = Done) M = M"
proof (induction M)
  case empty
  then show ?case by simp
next
  case (add x M)
  then show ?case by (cases "status x") simp_all
qed

lemma mset_columns: "mset (concat (map (getTasksByStatus ts) STATUS_COLUMNS)) = mset ts"
  using filter_status_cover [of "mset ts"]
  by (simp add: getTasksByStatus_def STATUS_COLUMNS_def ac_simps)

lemma set_column: "set (getTasksByStatus ts s) = {t \<in> set ts. status t = s}"
  by (simp add: getTasksByStatus_def)

lemma sorted_column: "sorted (map position (getTasksByStatus ts s))"
  by (simp add: getTasksByStatus_def)

text \<open>
  C7. For every list of tasks, the four columns of \<^verbatim>\<open>STATUS_COLUMNS\<close> together hold exactly
  the tasks of the list (as a multiset: every task as often as the list has it), two
  different columns share no task, and every column is in ascending order of position.
\<close>

theorem partition_cover:
  "mset (concat (map (getTasksByStatus ts) STATUS_COLUMNS)) = mset ts
   \<and> distinct STATUS_COLUMNS
   \<and> (\<forall>s s'. s \<noteq> s' \<longrightarrow> set (getTasksByStatus ts s) \<inter> set (getTasksByStatus ts s') = {})
   \<and> (\<forall>s. sorted (map position (getTasksByStatus ts s)))"
proof -
  have "set (getTasksByStatus ts s) \<inter> set (getTasksByStatus ts s') = {}" if "s \<noteq> s'" for s s'
    using that by (auto simp: set_column)
  moreover have "distinct STATUS_COLUMNS"
    by (simp add: STATUS_COLUMNS_def)
  ultimately show ?thesis
    using mset_columns sorted_column by blast
qed

text \<open>
  Three tasks: the two of status \<^verbatim>\<open>todo\<close> come out in the order of their positions, and
  share nothing with the column \<^verbatim>\<open>done\<close>.
\<close>

theorem partition_cover_witness:
  "mset (concat (map (getTasksByStatus [ex_task ''a'' Todo 1, ex_task ''b'' Done 0, ex_task ''c'' Todo 0])
       STATUS_COLUMNS))
     = mset [ex_task ''a'' Todo 1, ex_task ''b'' Done 0, ex_task ''c'' Todo 0]
   \<and> getTasksByStatus [ex_task ''a'' Todo 1, ex_task ''b'' Done 0, ex_task ''c'' Todo 0] Todo
       = [ex_task ''c'' Todo 0, ex_task ''a'' Todo 1]
   \<and> set (getTasksByStatus [ex_task ''a'' Todo 1, ex_task ''b'' Done 0, ex_task ''c'' Todo 0] Todo)
       \<inter> set (getTasksByStatus [ex_task ''a'' Todo 1, ex_task ''b'' Done 0, ex_task ''c'' Todo 0] Done) = {}
   \<and> sorted (map position
        (getTasksByStatus [ex_task ''a'' Todo 1, ex_task ''b'' Done 0, ex_task ''c'' Todo 0] Todo))"
proof -
  have ne: "Todo \<noteq> Done" by simp
  have col: "getTasksByStatus [ex_task ''a'' Todo 1, ex_task ''b'' Done 0, ex_task ''c'' Todo 0] Todo
       = [ex_task ''c'' Todo 0, ex_task ''a'' Todo 1]"
    by (simp add: getTasksByStatus_def ex_task_def ex_row_def)
  show ?thesis
    using partition_cover [of "[ex_task ''a'' Todo 1, ex_task ''b'' Done 0, ex_task ''c'' Todo 0]"] ne col
    by blast
qed

section \<open>The position of a new task\<close>

lemma Math_max_ge_default: "d \<le> Math_max xs d"
  unfolding Math_max_def by (induction xs arbitrary: d) (auto intro: order_trans [OF max.cobounded2])

lemma Math_max_ge_member: "x \<in> set xs \<Longrightarrow> x \<le> Math_max xs d"
  unfolding Math_max_def
proof (induction xs arbitrary: d)
  case Nil
  then show ?case by simp
next
  case (Cons y ys)
  show ?case
  proof (cases "x = y")
    case True
    have "max y d \<le> fold max ys (max y d)"
      using Math_max_ge_default [of "max y d" ys] by (simp add: Math_max_def)
    then show ?thesis using True by simp
  next
    case False
    then show ?thesis using Cons by simp
  qed
qed

lemma Math_max_eq: "Math_max xs d = Max (insert d (set xs))"
  unfolding Math_max_def
proof (induction xs arbitrary: d)
  case Nil
  then show ?case by simp
next
  case (Cons y ys)
  have "Max (insert (max y d) (set ys)) = Max (insert d (insert y (set ys)))"
    by (cases "set ys = {}") (simp_all add: max.commute max.left_commute max.assoc)
  then show ?case using Cons by simp
qed

lemma handleCreateTask_writes:
  assumes "board page = Some b" "user e = Some uid"
  shows "filter is_write (drop (length (log c)) (log (snd (handleCreateTask e (page, c)))))
     = [Insert_task (b_id b) (fst (newTask page)) (snd (newTask page)) (newTaskStatus page)
          (computeInsertPosition (filter (\<lambda>t. Some (status t) = newTaskStatus page) (tasks page)))
          uid]"
proof -
  let ?pos = "computeInsertPosition (filter (\<lambda>t. Some (status t) = newTaskStatus page) (tasks page))"
  let ?rq = "Insert_task (b_id b) (fst (newTask page)) (snd (newTask page)) (newTaskStatus page)
          ?pos uid"
  obtain r c' where r: "from_tasks_insert e (b_id b) (fst (newTask page)) (snd (newTask page))
      (newTaskStatus page) ?pos uid c = (r, c')"
    by (cases "from_tasks_insert e (b_id b) (fst (newTask page)) (snd (newTask page))
      (newTaskStatus page) ?pos uid c") blast
  then have l: "log c' = log c @ [?rq]"
    by (auto simp: from_tasks_insert_def send_def Let_def split: option.splits)
  show ?thesis
  proof (cases r)
    case None
    then show ?thesis
      using assms r l
      by (simp add: handleCreateTask_def Let_def fetchTasks_log toast_call_def)
  next
    case (Some err)
    then show ?thesis
      using assms r l by (simp add: handleCreateTask_def Let_def toast_call_def)
  qed
qed

text \<open>
  C2, as amended. The position of a new task is 0 when the target status has no task; it
  is one greater than the maximum existing position when some existing position is at
  least -1 (so whenever positions are not negative), and 0 when every existing position
  is below -1; positions 0 and 2 give 3; and it is greater than every existing position,
  so it collides with none. It is the position of the one row that \<^verbatim>\<open>handleCreateTask\<close>
  asks the store to insert, computed from the tasks of the target status on the page.
\<close>

theorem computeInsertPosition_spec:
  "computeInsertPosition [] = 0
   \<and> ((\<exists>t\<in>set existing. - 1 \<le> position t) \<longrightarrow>
        computeInsertPosition existing = Max (set (map position existing)) + 1)
   \<and> ((\<forall>t\<in>set existing. position t < - 1) \<longrightarrow> computeInsertPosition existing = 0)
   \<and> (position a = 0 \<and> position b = 2 \<longrightarrow> computeInsertPosition [a, b] = 3)
   \<and> (\<forall>t\<in>set existing. position t < computeInsertPosition existing)
   \<and> (board page = Some br \<and> user e = Some uid \<longrightarrow>
        filter is_write (drop (length (log c)) (log (snd (handleCreateTask e (page, c)))))
          = [Insert_task (b_id br) (fst (newTask page)) (snd (newTask page)) (newTaskStatus page)
               (computeInsertPosition
                  (filter (\<lambda>t. Some (status t) = newTaskStatus page) (tasks page)))
               uid])"
proof -
  let ?ps = "map position existing"
  have eq: "computeInsertPosition existing = Max (insert (- 1) (set ?ps)) + 1"
    by (simp add: computeInsertPosition_def Math_max_eq)
  have c1: "computeInsertPosition [] = 0"
    by (simp add: computeInsertPosition_def Math_max_def)
  have c2: "computeInsertPosition existing = Max (set ?ps) + 1"
    if "\<exists>t\<in>set existing. - 1 \<le> position t"
  proof -
    from that obtain t where t: "t \<in> set existing" "- 1 \<le> position t" by blast
    then have ne: "set ?ps \<noteq> {}" by auto
    have "position t \<le> Max (set ?ps)" using t by simp
    then have "- 1 \<le> Max (set ?ps)" using t by linarith
    then have "Max (insert (- 1) (set ?ps)) = Max (set ?ps)"
      using ne by (simp add: max_def)
    then show ?thesis using eq by simp
  qed
  have c3: "computeInsertPosition existing = 0" if "\<forall>t\<in>set existing. position t < - 1"
  proof -
    have "Max (insert (- 1) (set ?ps)) = - 1"
      using that by (intro Max_eqI) auto
    then show ?thesis using eq by simp
  qed
  have c4: "computeInsertPosition [a, b] = 3" if "position a = 0 \<and> position b = 2"
    using that by (simp add: computeInsertPosition_def Math_max_def)
  have c5: "position t < computeInsertPosition existing" if "t \<in> set existing" for t
    using Math_max_ge_member [of "position t" ?ps "- 1"] that
    by (simp add: computeInsertPosition_def)
  show ?thesis using c1 c2 c3 c4 c5 handleCreateTask_writes by blast
qed

text \<open>
  C2 as stated fails for a column whose only task has position -5: the new position is
  0, not -4.
\<close>

theorem computeInsertPosition_counterexample:
  "computeInsertPosition [ex_task ''a'' Todo (- 5)]
     \<noteq> Max (set (map position [ex_task ''a'' Todo (- 5)])) + 1"
  by (simp add: computeInsertPosition_def Math_max_def ex_task_def ex_row_def)

text \<open>
  Positions 0 and 2 give 3; a lone position -5 gives 0; with positions 0 and 1 in
  \<^verbatim>\<open>todo\<close> the row sent to the store has position 2.
\<close>

theorem computeInsertPosition_witness:
  "computeInsertPosition [ex_task ''a'' Todo 0, ex_task ''b'' Todo 2] = 3
   \<and> computeInsertPosition [ex_task ''a'' Todo 0, ex_task ''b'' Todo 2]
        = Max (set (map position [ex_task ''a'' Todo 0, ex_task ''b'' Todo 2])) + 1
   \<and> position (ex_task ''b'' Todo 2) < computeInsertPosition [ex_task ''a'' Todo 0, ex_task ''b'' Todo 2]
   \<and> computeInsertPosition [ex_task ''a'' Todo (- 5)] = 0
   \<and> filter is_write
        (log (snd (handleCreateTask ex_env (ex_page\<lparr>newTaskStatus := Some Todo\<rparr>, ex_ctx))))
       = [Insert_task ''b1'' [] [] (Some Todo) 2 ''u1'']"
proof -
  have p: "position (ex_task ''a'' Todo 0) = 0 \<and> position (ex_task ''b'' Todo 2) = 2"
    by (simp add: ex_task_def ex_row_def)
  have q: "\<exists>t\<in>set [ex_task ''a'' Todo 0, ex_task ''b'' Todo 2]. - 1 \<le> position t"
    by (simp add: ex_task_def ex_row_def)
  have r: "\<forall>t\<in>set [ex_task ''a'' Todo (- 5)]. position t < - 1"
    by (simp add: ex_task_def ex_row_def)
  have s: "board (ex_page\<lparr>newTaskStatus := Some Todo\<rparr>) = Some ex_board \<and> user ex_env = Some ''u1''"
    by (simp add: ex_page_def ex_env_def)
  have w: "computeInsertPosition (filter (\<lambda>t. Some (status t) = Some Todo) (tasks ex_page)) = 2"
    "b_id ex_board = ''b1''" "newTask ex_page = ([], [])" "log ex_ctx = []"
    by (simp_all add: ex_page_def ex_board_def ex_ctx_def ex_task_def ex_row_def
        computeInsertPosition_def Math_max_def)
  show ?thesis
    using computeInsertPosition_spec [where existing = "[ex_task ''a'' Todo 0, ex_task ''b'' Todo 2]"
        and a = "ex_task ''a'' Todo 0" and b = "ex_task ''b'' Todo 2"
        and page = "ex_page\<lparr>newTaskStatus := Some Todo\<rparr>" and br = ex_board and e = ex_env
        and uid = "''u1''" and c = ex_ctx]
      computeInsertPosition_spec [where existing = "[ex_task ''a'' Todo (- 5)]"] p q r s w
    by simp
qed

section \<open>Drag and drop\<close>

text \<open>
  C5. A drop on the place the task was taken from (same column, same index) returns
  before anything is sent: the page, the store, the log of requests and the toast queue
  are what they were.
\<close>

theorem handleDragEnd_identity:
  "destination result = Some d \<Longrightarrow> droppableId (source result) = droppableId d \<Longrightarrow>
   index (source result) = index d \<Longrightarrow>
   handleDragEnd e result (page, c) = (page, c)
   \<and> log (snd (handleDragEnd e result (page, c))) = log c
   \<and> store (snd (handleDragEnd e result (page, c))) = store c"
  by (simp add: handleDragEnd_def split: option.splits)

text \<open>The first task of \<^verbatim>\<open>todo\<close>, dropped where it was.\<close>

theorem handleDragEnd_identity_witness:
  "handleDragEnd ex_env (ex_drop ''a'' Todo 0 Todo 0) (ex_page, ex_ctx) = (ex_page, ex_ctx)
   \<and> log (snd (handleDragEnd ex_env (ex_drop ''a'' Todo 0 Todo 0) (ex_page, ex_ctx))) = []"
proof -
  have "destination (ex_drop ''a'' Todo 0 Todo 0) = Some \<lparr>droppableId = Todo, index = 0\<rparr>"
    "droppableId (source (ex_drop ''a'' Todo 0 Todo 0)) = droppableId \<lparr>droppableId = Todo, index = 0\<rparr>"
    "index (source (ex_drop ''a'' Todo 0 Todo 0)) = index \<lparr>droppableId = Todo, index = 0\<rparr>"
    "log ex_ctx = []"
    by (simp_all add: ex_drop_def ex_ctx_def)
  then show ?thesis
    using handleDragEnd_identity [where result = "ex_drop ''a'' Todo 0 Todo 0"
        and d = "\<lparr>droppableId = Todo, index = 0\<rparr>" and e = ex_env and page = ex_page and c = ex_ctx]
    by simp
qed

lemma handleDragEnd_refused:
  assumes "destination result = Some d" "board page = Some b"
    "\<not> (droppableId (source result) = droppableId d \<and> index (source result) = index d)"
    "refuses e (length (log c)) (Update_task (draggableId result) (move_patch d)) = Some err"
  shows "handleDragEnd e result (page, c) =
     (page, c\<lparr>log := log c @ [Update_task (draggableId result) (move_patch d)],
              toasts := toasts c @ [toast_error ''Failed to update task'']\<rparr>)"
  using assms by (auto simp: handleDragEnd_def from_tasks_update_refused toast_call_def)

lemma handleDragEnd_accepted:
  assumes "destination result = Some d" "board page = Some b"
    "\<not> (droppableId (source result) = droppableId d \<and> index (source result) = index d)"
    "refuses e (length (log c)) (Update_task (draggableId result) (move_patch d)) = None"
  shows "handleDragEnd e result (page, c) =
     fetchTasks e (b_id b)
       (page, c\<lparr>log := log c @ [Update_task (draggableId result) (move_patch d)],
              store := (store c)\<lparr>public_tasks :=
                map (\<lambda>t. if t_id t = draggableId result
                          then update_updated_at_column e (apply_patch (move_patch d) t) else t)
                  (public_tasks (store c))\<rparr>\<rparr>)"
  using assms by (auto simp: handleDragEnd_def from_tasks_update_accepted)

lemma move_row:
  "update_updated_at_column e (apply_patch (move_patch d) t) =
     t\<lparr>t_status := droppableId d, t_position := int (index d), t_updated_at := now e\<rparr>"
  by (simp add: update_updated_at_column_def apply_patch_def move_patch_def)

text \<open>
  C6. A move that is not the identity move, on a page whose board is loaded, sends one
  write: the update of the dragged task with the payload \<^verbatim>\<open>{status, position}\<close>, the
  destination column and the destination index as they are. When the store accepts it,
  the dragged task's row takes that status and that position (and the trigger's
  \<^verbatim>\<open>updated_at\<close>) and every other row of \<^verbatim>\<open>tasks\<close> is what it was: no sibling is renumbered.
  When the store refuses it, the table is unchanged.
\<close>

theorem handleDragEnd_mutation:
  assumes "destination result = Some d" and "board page = Some b"
    and "\<not> (droppableId (source result) = droppableId d \<and> index (source result) = index d)"
  shows "filter is_write (drop (length (log c)) (log (snd (handleDragEnd e result (page, c)))))
       = [Update_task (draggableId result)
            \<lparr>set_title = None, set_description = None, set_status = Some (droppableId d),
             set_position = Some (int (index d)), set_due_date = None\<rparr>]
     \<and> public_tasks (store (snd (handleDragEnd e result (page, c)))) =
        (if refuses e (length (log c)) (Update_task (draggableId result) (move_patch d)) = None
         then map (\<lambda>t. if t_id t = draggableId result
                        then t\<lparr>t_status := droppableId d, t_position := int (index d),
                               t_updated_at := now e\<rparr>
                        else t) (public_tasks (store c))
         else public_tasks (store c))"
proof (cases "refuses e (length (log c)) (Update_task (draggableId result) (move_patch d))")
  case None
  show ?thesis
    using handleDragEnd_accepted [OF assms None]
    by (simp add: fetchTasks_log fetchTasks_store None move_row) (simp add: move_patch_def)
next
  case (Some err)
  show ?thesis
    using handleDragEnd_refused [OF assms Some]
    by (simp add: Some) (simp add: move_patch_def)
qed

text \<open>
  The first task of \<^verbatim>\<open>todo\<close> dropped at index 1 of \<^verbatim>\<open>done\<close>: one update, and the two other
  rows keep their positions.
\<close>

theorem handleDragEnd_mutation_witness:
  "filter is_write (log (snd (handleDragEnd ex_env (ex_drop ''a'' Todo 0 Done 1) (ex_page, ex_ctx))))
     = [Update_task ''a'' \<lparr>set_title = None, set_description = None, set_status = Some Done,
          set_position = Some 1, set_due_date = None\<rparr>]
   \<and> public_tasks (store (snd (handleDragEnd ex_env (ex_drop ''a'' Todo 0 Done 1) (ex_page, ex_ctx))))
     = [(ex_row ''a'' Done 1)\<lparr>t_updated_at := 7\<rparr>, ex_row ''b'' Todo 1, ex_row ''c'' Done 0]"
proof -
  have h: "destination (ex_drop ''a'' Todo 0 Done 1) = Some \<lparr>droppableId = Done, index = 1\<rparr>"
    "board ex_page = Some ex_board"
    "\<not> (droppableId (source (ex_drop ''a'' Todo 0 Done 1)) = droppableId \<lparr>droppableId = Done, index = 1\<rparr>
        \<and> index (source (ex_drop ''a'' Todo 0 Done 1)) = index \<lparr>droppableId = Done, index = 1\<rparr>)"
    by (simp_all add: ex_drop_def ex_page_def)
  have v: "log ex_ctx = []" "draggableId (ex_drop ''a'' Todo 0 Done 1) = ''a''"
    "refuses ex_env n rq = None" "now ex_env = 7"
    "public_tasks (store ex_ctx) = [ex_row ''a'' Todo 0, ex_row ''b'' Todo 1, ex_row ''c'' Done 0]"
    for n rq
    by (simp_all add: ex_drop_def ex_env_def ex_ctx_def ex_db_def)
  show ?thesis
    using handleDragEnd_mutation [OF h, of ex_ctx ex_env] v
    by (simp add: ex_row_def)
qed

subsection \<open>Positions after a move\<close>

lemma place_unique:
  assumes ids: "distinct (map t_id ts)" and uniq: "unique_positions ts"
    and free: "\<not> occupied ts i s k"
  shows "unique_positions (map (place i s k n) ts)"
proof -
  have "partition_key (place i s k n (ts ! a)) \<noteq> partition_key (place i s k n (ts ! b))"
    if ab: "a < length ts" "b < length ts" "a \<noteq> b" for a b
  proof -
    have ne_id: "t_id (ts ! a) \<noteq> t_id (ts ! b)"
      using ids ab by (simp add: distinct_conv_nth)
    have ne_key: "partition_key (ts ! a) \<noteq> partition_key (ts ! b)"
      using uniq ab by (simp add: unique_positions_def distinct_conv_nth)
    have mem: "ts ! a \<in> set ts" "ts ! b \<in> set ts" using ab by simp_all
    have no: "\<not> (t_id t0 = i \<and> t_id t \<noteq> i \<and> t_board_id t = t_board_id t0 \<and> t_status t = s
        \<and> t_position t = k)" if "t0 \<in> set ts" "t \<in> set ts" for t0 t
      using free that by (auto simp: occupied_def list_ex_iff)
    show ?thesis
      using ne_id ne_key no [OF mem(1) mem(2)] no [OF mem(2) mem(1)]
      by (auto simp: place_def partition_key_def)
  qed
  then show ?thesis
    by (simp add: unique_positions_def distinct_conv_nth)
qed

lemma place_collides:
  assumes occ: "occupied ts i s k"
  shows "\<not> unique_positions (map (place i s k n) ts)"
proof -
  from occ obtain t0 t where t0: "t0 \<in> set ts" "t_id t0 = i" and t: "t \<in> set ts" "t_id t \<noteq> i"
    "t_board_id t = t_board_id t0" "t_status t = s" "t_position t = k"
    by (auto simp: occupied_def list_ex_iff)
  from t0 obtain a where a: "a < length ts" "ts ! a = t0" by (auto simp: in_set_conv_nth)
  from t obtain b where b: "b < length ts" "ts ! b = t" by (auto simp: in_set_conv_nth)
  have "a \<noteq> b" using a b t0 t by auto
  moreover have "partition_key (place i s k n (ts ! a)) = partition_key (place i s k n (ts ! b))"
    using a b t0 t by (simp add: place_def partition_key_def)
  ultimately show ?thesis
    using a b by (auto simp: unique_positions_def distinct_conv_nth)
qed

lemma place_siblings: "t \<in> set ts \<Longrightarrow> t_id t \<noteq> i \<Longrightarrow> t \<in> set (map (place i s k n) ts)"
  by (force simp: place_def)

lemma handleDragEnd_tasks:
  assumes "destination result = Some d"
  shows "public_tasks (store (snd (handleDragEnd e result (page, c)))) =
     (if board page \<noteq> None
         \<and> \<not> (droppableId (source result) = droppableId d \<and> index (source result) = index d)
         \<and> refuses e (length (log c)) (Update_task (draggableId result) (move_patch d)) = None
      then map (place (draggableId result) (droppableId d) (int (index d)) (now e))
             (public_tasks (store c))
      else public_tasks (store c))"
proof (cases "board page")
  case None
  then show ?thesis using assms by (simp add: handleDragEnd_def)
next
  case (Some b)
  show ?thesis
  proof (cases "droppableId (source result) = droppableId d \<and> index (source result) = index d")
    case True
    then show ?thesis using assms Some by (simp add: handleDragEnd_def)
  next
    case False
    show ?thesis
    proof (cases "refuses e (length (log c)) (Update_task (draggableId result) (move_patch d))")
      case None
      have "(\<lambda>t. if t_id t = draggableId result
                 then update_updated_at_column e (apply_patch (move_patch d) t) else t)
            = place (draggableId result) (droppableId d) (int (index d)) (now e)"
        by (rule ext) (simp add: place_def move_row)
      then show ?thesis
        using handleDragEnd_accepted [OF assms Some False None] Some False None
        by (simp add: fetchTasks_store)
    next
      case (Some err)
      then show ?thesis
        using handleDragEnd_refused [OF assms \<open>board page = Some b\<close> False Some]
        by simp
    qed
  qed
qed

text \<open>
  C1, as amended. A move renumbers nothing: every row other than the dragged task is in
  the table after the move as it was before. So, from a table with unique task ids and
  unique positions, positions stay unique when no other task of the dragged task's board
  already has the destination status and the destination index as its position; and when
  such a task exists and the store accepts the move, two tasks share that position
  afterwards.
\<close>

theorem handleDragEnd_positions:
  assumes "destination result = Some d"
  shows "(distinct (map t_id (public_tasks (store c))) \<and> unique_positions (public_tasks (store c))
       \<and> \<not> occupied (public_tasks (store c)) (draggableId result) (droppableId d) (int (index d))
       \<longrightarrow> unique_positions (public_tasks (store (snd (handleDragEnd e result (page, c))))))
     \<and> (board page = Some b
       \<and> \<not> (droppableId (source result) = droppableId d \<and> index (source result) = index d)
       \<and> refuses e (length (log c)) (Update_task (draggableId result) (move_patch d)) = None
       \<and> occupied (public_tasks (store c)) (draggableId result) (droppableId d) (int (index d))
       \<longrightarrow> \<not> unique_positions (public_tasks (store (snd (handleDragEnd e result (page, c))))))
     \<and> (\<forall>t\<in>set (public_tasks (store c)). t_id t \<noteq> draggableId result \<longrightarrow>
          t \<in> set (public_tasks (store (snd (handleDragEnd e result (page, c))))))"
  using place_unique place_collides place_siblings
  by (simp add: handleDragEnd_tasks [OF assms] del: set_map)

text \<open>
  C1 as stated fails on a board whose column \<^verbatim>\<open>todo\<close> holds two tasks at positions 0 and
  1 (unique, and renumbered from 0): dragging the second to index 0 gives it position
  0, which the first still has.
\<close>

theorem handleDragEnd_positions_counterexample:
  "unique_positions (public_tasks (store ex_ctx)) \<and> renumbered (public_tasks (store ex_ctx))
   \<and> \<not> unique_positions (public_tasks (store (snd
          (handleDragEnd ex_env (ex_drop ''b'' Todo 1 Todo 0) (ex_page, ex_ctx)))))
   \<and> \<not> renumbered (public_tasks (store (snd
          (handleDragEnd ex_env (ex_drop ''b'' Todo 1 Todo 0) (ex_page, ex_ctx)))))"
  by (simp add: handleDragEnd_def ex_env_def ex_board_def ex_db_def ex_ctx_def ex_page_def
      ex_drop_def ex_row_def ex_task_def send_def toast_call_def Let_def from_tasks_update_def
      from_tasks_select_def fetchTasks_def apply_patch_def update_updated_at_column_def
      move_patch_def unique_positions_def renumbered_def partition_key_def)

text \<open>
  On the same board: the first task of \<^verbatim>\<open>todo\<close> dropped at index 1 of \<^verbatim>\<open>done\<close>, a free
  position, leaves positions unique and the second task of \<^verbatim>\<open>todo\<close> at position 1; the
  second task of \<^verbatim>\<open>todo\<close> dropped at index 0, an occupied one, does not.
\<close>

theorem handleDragEnd_positions_witness:
  "unique_positions (public_tasks (store (snd
      (handleDragEnd ex_env (ex_drop ''a'' Todo 0 Done 1) (ex_page, ex_ctx)))))
   \<and> ex_row ''b'' Todo 1 \<in> set (public_tasks (store (snd
      (handleDragEnd ex_env (ex_drop ''a'' Todo 0 Done 1) (ex_page, ex_ctx)))))
   \<and> occupied (public_tasks (store ex_ctx)) ''b'' Todo 0
   \<and> \<not> unique_positions (public_tasks (store (snd
      (handleDragEnd ex_env (ex_drop ''b'' Todo 1 Todo 0) (ex_page, ex_ctx)))))"
proof -
  have d1: "destination (ex_drop ''a'' Todo 0 Done 1) = Some \<lparr>droppableId = Done, index = 1\<rparr>"
    and d2: "destination (ex_drop ''b'' Todo 1 Todo 0) = Some \<lparr>droppableId = Todo, index = 0\<rparr>"
    by (simp_all add: ex_drop_def)
  have pre: "distinct (map t_id (public_tasks (store ex_ctx)))"
    "unique_positions (public_tasks (store ex_ctx))"
    "\<not> occupied (public_tasks (store ex_ctx)) ''a'' Done 1"
    "occupied (public_tasks (store ex_ctx)) ''b'' Todo 0"
    "ex_row ''b'' Todo 1 \<in> set (public_tasks (store ex_ctx))"
    by (simp_all add: ex_ctx_def ex_db_def ex_row_def unique_positions_def partition_key_def
        occupied_def)
  have run: "board ex_page = Some ex_board"
    "refuses ex_env (length (log ex_ctx)) rq = None" for rq
    by (simp_all add: ex_page_def ex_env_def)
  have ids: "draggableId (ex_drop ''a'' Todo 0 Done 1) = ''a''"
    "draggableId (ex_drop ''b'' Todo 1 Todo 0) = ''b''"
    "source (ex_drop ''b'' Todo 1 Todo 0) = \<lparr>droppableId = Todo, index = 1\<rparr>"
    "t_id (ex_row ''b'' Todo 1) = ''b''"
    by (simp_all add: ex_drop_def ex_row_def)
  show ?thesis
    using handleDragEnd_positions [OF d1, where c = ex_ctx and e = ex_env and page = ex_page
        and b = ex_board]
      handleDragEnd_positions [OF d2, where c = ex_ctx and e = ex_env and page = ex_page
        and b = ex_board] pre run ids
    by simp
qed

section \<open>The task dialog\<close>

lemma save_row:
  "update_updated_at_column e (apply_patch (save_patch ed) t) =
     t\<lparr>t_title := t_title (row ed), t_description := t_description (row ed),
       t_status := t_status (row ed), t_due_date := t_due_date (row ed), t_updated_at := now e\<rparr>"
  by (simp add: update_updated_at_column_def apply_patch_def save_patch_def)

lemma handleSaveTask_refused:
  assumes "refuses e (length (log c))
      (Update_task (t_id (row (task modal))) (save_patch (editedTask modal))) = Some err"
  shows "handleSaveTask e (modal, page, c) =
     (modal\<lparr>isLoading := False\<rparr>, page,
      c\<lparr>log := log c @ [Update_task (t_id (row (task modal))) (save_patch (editedTask modal))],
        toasts := toasts c @ [toast_error err]\<rparr>)"
  using assms by (simp add: handleSaveTask_def from_tasks_update_refused toast_call_def)

lemma handleSaveTask_accepted:
  assumes "refuses e (length (log c))
      (Update_task (t_id (row (task modal))) (save_patch (editedTask modal))) = None"
  shows "snd (snd (handleSaveTask e (modal, page, c))) =
     snd (onTaskUpdate e (page,
       c\<lparr>log := log c @ [Update_task (t_id (row (task modal))) (save_patch (editedTask modal))],
         store := (store c)\<lparr>public_tasks :=
            map (\<lambda>t. if t_id t = t_id (row (task modal))
                      then update_updated_at_column e (apply_patch (save_patch (editedTask modal)) t)
                      else t)
              (public_tasks (store c))\<rparr>,
         toasts := toasts c @ [toast_success ''Task updated successfully!'']\<rparr>))"
  using assms
  by (simp add: handleSaveTask_def from_tasks_update_accepted toast_call_def split: prod.splits)

text \<open>
  C10, as amended. Saving the dialog sends one write, the update of the task with the
  payload \<^verbatim>\<open>{title, description, status, due_date}\<close> of the edited copy. When the store
  accepts it, the task's row takes these four values and the trigger sets its
  \<^verbatim>\<open>updated_at\<close> to the store's time; every other column of the row and every other row is
  what it was. In particular every position is kept: a status changed through the dialog
  keeps the old position. When the store refuses it, the table is unchanged.
\<close>

theorem handleSaveTask_frame:
  "filter is_write (drop (length (log c)) (log (snd (snd (handleSaveTask e (modal, page, c))))))
     = [Update_task (t_id (row (task modal)))
          \<lparr>set_title = Some (t_title (row (editedTask modal))),
           set_description = Some (t_description (row (editedTask modal))),
           set_status = Some (t_status (row (editedTask modal))),
           set_position = None,
           set_due_date = Some (t_due_date (row (editedTask modal)))\<rparr>]
   \<and> public_tasks (store (snd (snd (handleSaveTask e (modal, page, c))))) =
       (if refuses e (length (log c))
             (Update_task (t_id (row (task modal))) (save_patch (editedTask modal))) = None
        then map (\<lambda>t. if t_id t = t_id (row (task modal))
                       then t\<lparr>t_title := t_title (row (editedTask modal)),
                              t_description := t_description (row (editedTask modal)),
                              t_status := t_status (row (editedTask modal)),
                              t_due_date := t_due_date (row (editedTask modal)),
                              t_updated_at := now e\<rparr>
                       else t) (public_tasks (store c))
        else public_tasks (store c))
   \<and> map t_position (public_tasks (store (snd (snd (handleSaveTask e (modal, page, c))))))
       = map t_position (public_tasks (store c))
   \<and> map (\<lambda>t. (t_id t, t_board_id t, t_created_by t, t_created_at t))
        (public_tasks (store (snd (snd (handleSaveTask e (modal, page, c))))))
       = map (\<lambda>t. (t_id t, t_board_id t, t_created_by t, t_created_at t)) (public_tasks (store c))"
proof (cases "refuses e (length (log c))
    (Update_task (t_id (row (task modal))) (save_patch (editedTask modal)))")
  case None
  have "map t_position (map (\<lambda>t. if t_id t = i then t\<lparr>t_title := a, t_description := b,
      t_status := s, t_due_date := dd, t_updated_at := n\<rparr> else t) ts) = map t_position ts"
    for i a b s dd n and ts :: "tasks_row list"
    by (induction ts) simp_all
  moreover have "map (\<lambda>t. (t_id t, t_board_id t, t_created_by t, t_created_at t))
      (map (\<lambda>t. if t_id t = i then t\<lparr>t_title := a, t_description := b,
      t_status := s, t_due_date := dd, t_updated_at := n\<rparr> else t) ts)
      = map (\<lambda>t. (t_id t, t_board_id t, t_created_by t, t_created_at t)) ts"
    for i a b s dd n and ts :: "tasks_row list"
    by (induction ts) simp_all
  ultimately show ?thesis
    using handleSaveTask_accepted [OF None, of page]
    by (simp add: onTaskUpdate_store onTaskUpdate_writes save_row None) (simp add: save_patch_def)
next
  case (Some err)
  show ?thesis
    using handleSaveTask_refused [OF Some, of page]
    by (simp add: Some) (simp add: save_patch_def)
qed

text \<open>
  C10 as stated fails on the column \<^verbatim>\<open>updated_at\<close>: the rows were last updated at time 0,
  the dialog saves the first task at time 7, and the row's \<^verbatim>\<open>updated_at\<close> is 7 afterwards.
\<close>

theorem handleSaveTask_frame_counterexample:
  "map t_updated_at (public_tasks (store ex_ctx)) = [0, 0, 0]
   \<and> map t_updated_at (public_tasks (store (snd (snd
        (handleSaveTask ex_env (ex_modal, ex_page, ex_ctx)))))) = [7, 0, 0]"
  by (simp add: handleSaveTask_def ex_env_def ex_board_def ex_db_def ex_ctx_def ex_page_def
      ex_modal_def ex_row_def ex_task_def send_def toast_call_def Let_def from_tasks_update_def
      from_tasks_select_def fetchTasks_def onTaskUpdate_def apply_patch_def
      update_updated_at_column_def save_patch_def)

text \<open>
  The dialog renames the first task of \<^verbatim>\<open>todo\<close> and moves it to \<^verbatim>\<open>done\<close>: the row keeps
  position 0, which the task already in \<^verbatim>\<open>done\<close> has too.
\<close>

theorem handleSaveTask_frame_witness:
  "public_tasks (store (snd (snd (handleSaveTask ex_env (ex_modal, ex_page, ex_ctx)))))
     = [(ex_row ''a'' Done 0)\<lparr>t_title := ''A'', t_updated_at := 7\<rparr>,
        ex_row ''b'' Todo 1, ex_row ''c'' Done 0]
   \<and> map t_position (public_tasks (store (snd (snd
        (handleSaveTask ex_env (ex_modal, ex_page, ex_ctx)))))) = [0, 1, 0]"
proof -
  have v: "refuses ex_env n rq = None" "now ex_env = 7"
    "public_tasks (store ex_ctx) = [ex_row ''a'' Todo 0, ex_row ''b'' Todo 1, ex_row ''c'' Done 0]"
    "t_id (row (task ex_modal)) = ''a''"
    "row (editedTask ex_modal) = (ex_row ''a'' Todo 0)\<lparr>t_title := ''A'', t_status := Done\<rparr>"
    for n rq
    by (simp_all add: ex_env_def ex_ctx_def ex_db_def ex_modal_def ex_task_def ex_row_def)
  show ?thesis
    using handleSaveTask_frame [of ex_ctx ex_env ex_modal ex_page] v
    by (simp add: ex_row_def)
qed

subsection \<open>Assignments\<close>

lemma insert_assignment_refused:
  "refuses e (length (log c)) (Insert_task_assignment tid u) = Some err \<Longrightarrow>
   from_task_assignments_insert e tid u c = (Some err, c\<lparr>log := log c @ [Insert_task_assignment tid u]\<rparr>)"
  by (simp add: from_task_assignments_insert_def send_def)

lemma insert_assignment_duplicate:
  "refuses e (length (log c)) (Insert_task_assignment tid u) = None \<Longrightarrow>
   (tid, u) \<in> set (assignment_keys (store c)) \<Longrightarrow>
   from_task_assignments_insert e tid u c =
     (Some (duplicate_key ''task_assignments_task_id_user_id_key''),
      c\<lparr>log := log c @ [Insert_task_assignment tid u]\<rparr>)"
  by (simp add: from_task_assignments_insert_def send_def Let_def)

lemma insert_assignment_accepted:
  "refuses e (length (log c)) (Insert_task_assignment tid u) = None \<Longrightarrow>
   (tid, u) \<notin> set (assignment_keys (store c)) \<Longrightarrow>
   from_task_assignments_insert e tid u c =
     (None, c\<lparr>log := log c @ [Insert_task_assignment tid u],
              store := (store c)\<lparr>public_task_assignments := public_task_assignments (store c) @
                 [\<lparr>ta_id = fresh_uuid e (store c), ta_task_id = tid, ta_user_id = u,
                   ta_assigned_at = now e\<rparr>],
                 serial := Suc (serial (store c))\<rparr>\<rparr>)"
  by (simp add: from_task_assignments_insert_def send_def Let_def)

lemma delete_assignment_refused:
  "refuses e (length (log c)) (Delete_task_assignment tid u) = Some err \<Longrightarrow>
   from_task_assignments_delete e tid u c = (Some err, c\<lparr>log := log c @ [Delete_task_assignment tid u]\<rparr>)"
  by (simp add: from_task_assignments_delete_def send_def)

lemma delete_assignment_accepted:
  "refuses e (length (log c)) (Delete_task_assignment tid u) = None \<Longrightarrow>
   from_task_assignments_delete e tid u c =
     (None, c\<lparr>log := log c @ [Delete_task_assignment tid u],
              store := (store c)\<lparr>public_task_assignments :=
                 filter (\<lambda>a. \<not> (ta_task_id a = tid \<and> ta_user_id a = u))
                   (public_task_assignments (store c))\<rparr>\<rparr>)"
  by (simp add: from_task_assignments_delete_def send_def Let_def)

text \<open>The three things one toggle can do to the table.\<close>

lemma handleAssignUser_table:
  "public_task_assignments (store (snd (snd (handleAssignUser e u (modal, page, c))))) =
     (if u \<in> set (assignees (task modal))
      then (if refuses e (length (log c)) (Delete_task_assignment (t_id (row (task modal))) u) = None
            then filter (\<lambda>a. \<not> (ta_task_id a = t_id (row (task modal)) \<and> ta_user_id a = u))
                   (public_task_assignments (store c))
            else public_task_assignments (store c))
      else (if refuses e (length (log c)) (Insert_task_assignment (t_id (row (task modal))) u) = None
              \<and> (t_id (row (task modal)), u) \<notin> set (assignment_keys (store c))
            then public_task_assignments (store c) @
                 [\<lparr>ta_id = fresh_uuid e (store c), ta_task_id = t_id (row (task modal)),
                   ta_user_id = u, ta_assigned_at = now e\<rparr>]
            else public_task_assignments (store c)))"
proof -
  let ?tid = "t_id (row (task modal))"
  show ?thesis
  proof (cases "u \<in> set (assignees (task modal))")
    case True
    show ?thesis
    proof (cases "refuses e (length (log c)) (Delete_task_assignment ?tid u)")
      case None
      then show ?thesis
        using True
        by (simp add: handleAssignUser_def Let_def delete_assignment_accepted onTaskUpdate_store
            toast_call_def split: prod.splits)
    next
      case (Some err)
      then show ?thesis
        using True
        by (simp add: handleAssignUser_def Let_def delete_assignment_refused toast_call_def)
    qed
  next
    case False
    show ?thesis
    proof (cases "refuses e (length (log c)) (Insert_task_assignment ?tid u)")
      case None
      show ?thesis
      proof (cases "(?tid, u) \<in> set (assignment_keys (store c))")
        case True
        then show ?thesis
          using False None
          by (simp add: handleAssignUser_def Let_def insert_assignment_duplicate toast_call_def)
      next
        case nodup: False
        then show ?thesis
          using False None
          by (simp add: handleAssignUser_def Let_def insert_assignment_accepted onTaskUpdate_store
              toast_call_def split: prod.splits)
      qed
    next
      case (Some err)
      then show ?thesis
        using False
        by (simp add: handleAssignUser_def Let_def insert_assignment_refused toast_call_def)
    qed
  qed
qed

lemma handleAssignUser_writes:
  "filter is_write (drop (length (log c)) (log (snd (snd (handleAssignUser e u (modal, page, c))))))
     = [if u \<in> set (assignees (task modal))
        then Delete_task_assignment (t_id (row (task modal))) u
        else Insert_task_assignment (t_id (row (task modal))) u]"
proof -
  let ?tid = "t_id (row (task modal))"
  have ins: "filter is_write (drop (length (log c))
      (log (snd (from_task_assignments_insert e ?tid u c)))) = [Insert_task_assignment ?tid u]"
    by (simp add: from_task_assignments_insert_def send_def Let_def split: option.splits)
  have del: "filter is_write (drop (length (log c))
      (log (snd (from_task_assignments_delete e ?tid u c)))) = [Delete_task_assignment ?tid u]"
    by (simp add: from_task_assignments_delete_def send_def Let_def split: option.splits)
  have tail: "filter is_write (drop n (log (snd (snd
      (case res of
         (Some err, c') \<Rightarrow> (modal, page, toast_call (toast_error err) c')
       | (None, c') \<Rightarrow>
           (case onTaskUpdate e (page, toast_call t c') of
              (page', c'') \<Rightarrow> (modal, page', c'')))))))
      = filter is_write (drop n (log (snd res)))" for res n t
  proof (cases res)
    case (Pair r c')
    then show ?thesis
      by (cases r) (simp_all add: case_prod_beta onTaskUpdate_writes toast_call_def)
  qed
  show ?thesis
    using ins del by (simp add: handleAssignUser_def Let_def tail)
qed

lemma handleAssignUser_duplicate_toast:
  assumes "u \<notin> set (assignees (task modal))"
    and "(t_id (row (task modal)), u) \<in> set (assignment_keys (store c))"
    and "refuses e (length (log c)) (Insert_task_assignment (t_id (row (task modal))) u) = None"
  shows "toasts (snd (snd (handleAssignUser e u (modal, page, c))))
     = toasts c @ [toast_error (duplicate_key ''task_assignments_task_id_user_id_key'')]"
  using assms
  by (simp add: handleAssignUser_def Let_def insert_assignment_duplicate toast_call_def)

text \<open>
  C8, as amended. One toggle sends one write, chosen from the assignees of the task the
  dialog was opened with: a delete when they list the identity, an insert otherwise. So
  the table after the toggle is the table without the pair (the dialog lists the
  identity and the store accepts the delete), the table with one more row (the dialog
  does not list the identity, the store does not hold the pair and accepts the insert),
  or the table as it was. When the store already holds the pair, no row is added: the
  assignment is removed, or the table stays as it is, and an insert that reaches the
  store is answered with the duplicate-key error of the unique constraint, shown as an
  error toast. When the dialog lists the identity, no row is added either, also when
  the store no longer holds the pair. A table with no duplicate pair has none after
  the toggle.
\<close>

theorem handleAssignUser_no_duplicate:
  "(distinct (assignment_keys (store c)) \<longrightarrow>
      distinct (assignment_keys (store (snd (snd (handleAssignUser e u (modal, page, c)))))))
   \<and> public_task_assignments (store (snd (snd (handleAssignUser e u (modal, page, c))))) =
       (if u \<in> set (assignees (task modal))
        then (if refuses e (length (log c))
                   (Delete_task_assignment (t_id (row (task modal))) u) = None
              then filter (\<lambda>a. \<not> (ta_task_id a = t_id (row (task modal)) \<and> ta_user_id a = u))
                     (public_task_assignments (store c))
              else public_task_assignments (store c))
        else (if refuses e (length (log c))
                   (Insert_task_assignment (t_id (row (task modal))) u) = None
                 \<and> (t_id (row (task modal)), u) \<notin> set (assignment_keys (store c))
              then public_task_assignments (store c) @
                   [\<lparr>ta_id = fresh_uuid e (store c), ta_task_id = t_id (row (task modal)),
                     ta_user_id = u, ta_assigned_at = now e\<rparr>]
              else public_task_assignments (store c)))
   \<and> ((t_id (row (task modal)), u) \<in> set (assignment_keys (store c)) \<longrightarrow>
        public_task_assignments (store (snd (snd (handleAssignUser e u (modal, page, c)))))
          = (if u \<in> set (assignees (task modal))
                \<and> refuses e (length (log c))
                     (Delete_task_assignment (t_id (row (task modal))) u) = None
             then filter (\<lambda>a. \<not> (ta_task_id a = t_id (row (task modal)) \<and> ta_user_id a = u))
                    (public_task_assignments (store c))
             else public_task_assignments (store c)))
   \<and> ((t_id (row (task modal)), u) \<in> set (assignment_keys (store c))
        \<and> u \<notin> set (assignees (task modal))
        \<and> refuses e (length (log c)) (Insert_task_assignment (t_id (row (task modal))) u) = None \<longrightarrow>
        toasts (snd (snd (handleAssignUser e u (modal, page, c))))
          = toasts c @
              [\<lparr>title = ''Error'',
                description = ''duplicate key value violates unique constraint ''
                                @ ''task_assignments_task_id_user_id_key'',
                destructive = True\<rparr>])
   \<and> filter is_write (drop (length (log c))
          (log (snd (snd (handleAssignUser e u (modal, page, c))))))
        = [if u \<in> set (assignees (task modal))
           then Delete_task_assignment (t_id (row (task modal))) u
           else Insert_task_assignment (t_id (row (task modal))) u]
   \<and> (u \<notin> set (assignees (task modal))
        \<and> (t_id (row (task modal)), u) \<notin> set (assignment_keys (store c))
        \<and> refuses e (length (log c)) (Insert_task_assignment (t_id (row (task modal))) u) = None \<longrightarrow>
        public_task_assignments (store (snd (snd (handleAssignUser e u (modal, page, c)))))
          = public_task_assignments (store c) @
              [\<lparr>ta_id = fresh_uuid e (store c), ta_task_id = t_id (row (task modal)),
                ta_user_id = u, ta_assigned_at = now e\<rparr>])
   \<and> (u \<in> set (assignees (task modal)) \<longrightarrow>
        length (public_task_assignments (store (snd (snd (handleAssignUser e u (modal, page, c))))))
          \<le> length (public_task_assignments (store c)))"
proof -
  let ?new = "public_task_assignments (store (snd (snd (handleAssignUser e u (modal, page, c)))))"
  let ?old = "public_task_assignments (store c)"
  let ?key = "\<lambda>a. (ta_task_id a, ta_user_id a)"
  have inv: "distinct (map ?key ?new)" if "distinct (map ?key ?old)"
    using that
    by (auto simp: handleAssignUser_table assignment_keys_def distinct_map_filter)
  have already: "?new = (if u \<in> set (assignees (task modal))
                \<and> refuses e (length (log c))
                     (Delete_task_assignment (t_id (row (task modal))) u) = None
             then filter (\<lambda>a. \<not> (ta_task_id a = t_id (row (task modal)) \<and> ta_user_id a = u)) ?old
             else ?old)"
    if "(t_id (row (task modal)), u) \<in> set (assignment_keys (store c))"
    using that by (simp add: handleAssignUser_table)
  have fresh: "?new = ?old @ [\<lparr>ta_id = fresh_uuid e (store c), ta_task_id = t_id (row (task modal)),
                ta_user_id = u, ta_assigned_at = now e\<rparr>]"
    if "u \<notin> set (assignees (task modal))
        \<and> (t_id (row (task modal)), u) \<notin> set (assignment_keys (store c))
        \<and> refuses e (length (log c)) (Insert_task_assignment (t_id (row (task modal))) u) = None"
    using that by (simp add: handleAssignUser_table)
  have listed: "length ?new \<le> length ?old" if "u \<in> set (assignees (task modal))"
    using that by (simp add: handleAssignUser_table)
  have toast: "toasts (snd (snd (handleAssignUser e u (modal, page, c))))
          = toasts c @
              [\<lparr>title = ''Error'',
                description = ''duplicate key value violates unique constraint ''
                                @ ''task_assignments_task_id_user_id_key'',
                destructive = True\<rparr>]"
    if "(t_id (row (task modal)), u) \<in> set (assignment_keys (store c))
        \<and> u \<notin> set (assignees (task modal))
        \<and> refuses e (length (log c)) (Insert_task_assignment (t_id (row (task modal))) u) = None"
    using that handleAssignUser_duplicate_toast [of u modal c e page]
    by (simp add: toast_error_def duplicate_key_def)
  show ?thesis
    using inv already fresh listed toast handleAssignUser_table [of e u modal page c]
      handleAssignUser_writes [of c e u modal page]
    unfolding assignment_keys_def by blast
qed

text \<open>
  C8 as stated fails when the dialog is behind the store. The dialog was opened on a
  task assigned to \<^verbatim>\<open>u2\<close>; a first click removes the assignment. The dialog still lists
  \<^verbatim>\<open>u2\<close>, so a second click, on an identity the store no longer holds, sends a delete
  again: no row is inserted.
\<close>

theorem handleAssignUser_no_duplicate_counterexample:
  "public_task_assignments (store (snd (snd
      (handleAssignUser ex_env ''u2'' (ex_modal_listed, ex_page, ex_ctx_assigned))))) = []
   \<and> (''a'', ''u2'') \<notin> set (assignment_keys (store (snd (snd
      (handleAssignUser ex_env ''u2'' (ex_modal_listed, ex_page, ex_ctx_assigned))))))
   \<and> filter is_write (drop (length (log (snd (snd
        (handleAssignUser ex_env ''u2'' (ex_modal_listed, ex_page, ex_ctx_assigned))))))
      (log (snd (snd (handleAssignUser ex_env ''u2'' (ex_modal_listed, ex_page,
        snd (snd (handleAssignUser ex_env ''u2'' (ex_modal_listed, ex_page, ex_ctx_assigned)))))))))
     = [Delete_task_assignment ''a'' ''u2'']
   \<and> public_task_assignments (store (snd (snd (handleAssignUser ex_env ''u2''
        (ex_modal_listed, ex_page,
         snd (snd (handleAssignUser ex_env ''u2'' (ex_modal_listed, ex_page, ex_ctx_assigned)))))))) = []"
  by (simp add: handleAssignUser_def ex_env_def ex_board_def ex_db_def ex_ctx_def ex_page_def
      ex_modal_def ex_modal_listed_def ex_ctx_assigned_def ex_row_def ex_task_def send_def
      toast_call_def Let_def from_task_assignments_delete_def from_task_assignments_insert_def
      from_tasks_select_def fetchTasks_def onTaskUpdate_def assignment_keys_def)

text \<open>
  The dialog of a task with no assignee assigns a user: one row. The dialog still
  shows the task without assignees, so a second click asks for the insert again: the
  store answers with the duplicate-key error and the table keeps its one row. A dialog
  that lists the user removes the assignment and adds no row.
\<close>

theorem handleAssignUser_no_duplicate_witness:
  "public_task_assignments (store (snd (snd (handleAssignUser ex_env ''u2'' (ex_modal, ex_page, ex_ctx)))))
     = [\<lparr>ta_id = ''id'', ta_task_id = ''a'', ta_user_id = ''u2'', ta_assigned_at = 7\<rparr>]
   \<and> filter is_write (log (snd (snd (handleAssignUser ex_env ''u2'' (ex_modal, ex_page, ex_ctx)))))
     = [Insert_task_assignment ''a'' ''u2'']
   \<and> public_task_assignments (store (snd (snd (handleAssignUser ex_env ''u2''
        (ex_modal, ex_page, snd (snd (handleAssignUser ex_env ''u2'' (ex_modal, ex_page, ex_ctx))))))))
     = [\<lparr>ta_id = ''id'', ta_task_id = ''a'', ta_user_id = ''u2'', ta_assigned_at = 7\<rparr>]
   \<and> distinct (assignment_keys (store (snd (snd (handleAssignUser ex_env ''u2''
        (ex_modal, ex_page, snd (snd (handleAssignUser ex_env ''u2'' (ex_modal, ex_page, ex_ctx)))))))))
   \<and> last (toasts (snd (snd (handleAssignUser ex_env ''u2''
        (ex_modal, ex_page, snd (snd (handleAssignUser ex_env ''u2'' (ex_modal, ex_page, ex_ctx))))))))
     = \<lparr>title = ''Error'',
        description = ''duplicate key value violates unique constraint task_assignments_task_id_user_id_key'',
        destructive = True\<rparr>
   \<and> public_task_assignments (store (snd (snd
        (handleAssignUser ex_env ''u2'' (ex_modal_listed, ex_page, ex_ctx_assigned))))) = []
   \<and> length (public_task_assignments (store (snd (snd
        (handleAssignUser ex_env ''u2'' (ex_modal_listed, ex_page, ex_ctx_assigned))))))
       \<le> length (public_task_assignments (store ex_ctx_assigned))"
proof -
  let ?c1 = "snd (snd (handleAssignUser ex_env ''u2'' (ex_modal, ex_page, ex_ctx)))"
  let ?c2 = "snd (snd (handleAssignUser ex_env ''u2'' (ex_modal, ex_page, ?c1)))"
  let ?c3 = "snd (snd (handleAssignUser ex_env ''u2'' (ex_modal_listed, ex_page, ex_ctx_assigned)))"
  have v: "''u2'' \<notin> set (assignees (task ex_modal))" "t_id (row (task ex_modal)) = ''a''"
    "(''a'', ''u2'') \<notin> set (assignment_keys (store ex_ctx))"
    "distinct (assignment_keys (store ex_ctx))"
    "refuses ex_env n rq = None" "public_task_assignments (store ex_ctx) = []"
    "fresh_uuid ex_env (store ex_ctx) = ''id''" "now ex_env = 7" "log ex_ctx = []" for n rq
    by (simp_all add: ex_env_def ex_ctx_def ex_db_def ex_modal_def ex_task_def ex_row_def
        assignment_keys_def fresh_uuid_def)
  have first: "public_task_assignments (store ?c1)
     = [\<lparr>ta_id = ''id'', ta_task_id = ''a'', ta_user_id = ''u2'', ta_assigned_at = 7\<rparr>]"
    "distinct (assignment_keys (store ?c1))"
    "filter is_write (log ?c1) = [Insert_task_assignment ''a'' ''u2'']"
    using handleAssignUser_no_duplicate [of ex_ctx ex_env "''u2''" ex_modal ex_page] v
    by simp_all
  then have again: "(''a'', ''u2'') \<in> set (assignment_keys (store ?c1))"
    by (simp add: assignment_keys_def)
  have second: "public_task_assignments (store ?c2)
     = [\<lparr>ta_id = ''id'', ta_task_id = ''a'', ta_user_id = ''u2'', ta_assigned_at = 7\<rparr>]"
    "distinct (assignment_keys (store ?c2))"
    "last (toasts ?c2) = \<lparr>title = ''Error'',
        description = ''duplicate key value violates unique constraint task_assignments_task_id_user_id_key'',
        destructive = True\<rparr>"
    using handleAssignUser_no_duplicate [of ?c1 ex_env "''u2''" ex_modal ex_page] v(1,2,5) again first
    by simp_all
  have w: "''u2'' \<in> set (assignees (task ex_modal_listed))" "t_id (row (task ex_modal_listed)) = ''a''"
    "(''a'', ''u2'') \<in> set (assignment_keys (store ex_ctx_assigned))"
    "public_task_assignments (store ex_ctx_assigned)
       = [\<lparr>ta_id = ''x'', ta_task_id = ''a'', ta_user_id = ''u2'', ta_assigned_at = 0\<rparr>]"
    by (simp_all add: ex_modal_listed_def ex_modal_def ex_ctx_assigned_def ex_ctx_def ex_db_def
        ex_task_def ex_row_def assignment_keys_def)
  have third: "public_task_assignments (store ?c3) = []"
    "length (public_task_assignments (store ?c3))
       \<le> length (public_task_assignments (store ex_ctx_assigned))"
    using handleAssignUser_no_duplicate [of ex_ctx_assigned ex_env "''u2''" ex_modal_listed ex_page]
      v(5) w
    by simp_all
  show ?thesis using first second third by simp
qed

section \<open>The dashboard\<close>

lemma from_projects_select_store: "store (snd (from_projects_select e c)) = store c"
  by (simp add: from_projects_select_def send_def split: option.splits)

lemma from_projects_select_log: "log (snd (from_projects_select e c)) = log c @ [Select_projects]"
  by (simp add: from_projects_select_def send_def split: option.splits)

lemma from_projects_select_refused:
  "refuses e (length (log c)) Select_projects = Some err \<Longrightarrow>
   from_projects_select e c = (Inl err, c\<lparr>log := log c @ [Select_projects]\<rparr>)"
  by (simp add: from_projects_select_def send_def)

lemma fetchProjects_store: "store (snd (fetchProjects e (page, c))) = store c"
  using from_projects_select_store [of e c]
  by (auto simp: fetchProjects_def toast_call_def split: prod.splits sum.splits)

lemma fetchProjects_log: "log (snd (fetchProjects e (page, c))) = log c @ [Select_projects]"
  using from_projects_select_log [of e c]
  by (auto simp: fetchProjects_def toast_call_def split: prod.splits sum.splits)

lemma fetchProjects_refused:
  "refuses e (length (log c)) Select_projects = Some err \<Longrightarrow>
   fetchProjects e (page, c) =
     (page\<lparr>loading := False\<rparr>,
      c\<lparr>log := log c @ [Select_projects],
        toasts := toasts c @ [toast_error ''Failed to fetch projects'']\<rparr>)"
  by (simp add: fetchProjects_def from_projects_select_refused toast_call_def)

subsection \<open>Reads that fail\<close>

text \<open>
  C9, as amended. When the store refuses the read, \<^verbatim>\<open>fetchTasks\<close> and \<^verbatim>\<open>fetchProjects\<close>
  return (they are total), queue one error toast, and leave the list the page held as it
  was (\<^verbatim>\<open>fetchProjects\<close> also clears \<^verbatim>\<open>loading\<close>): the caller is left with the previous
  result, which is empty only if nothing had been loaded before.
\<close>

theorem failed_read_keeps_result:
  "(refuses e (length (log c)) (Select_tasks boardId) = Some err \<longrightarrow>
      fetchTasks e boardId (page, c) =
        (page, c\<lparr>log := log c @ [Select_tasks boardId],
                 toasts := toasts c @ [\<lparr>title = ''Error'', description = ''Failed to fetch tasks'',
                     destructive = True\<rparr>]\<rparr>))
   \<and> (refuses e (length (log c)) Select_projects = Some err \<longrightarrow>
      fetchProjects e (dash, c) =
        (dash\<lparr>loading := False\<rparr>,
         c\<lparr>log := log c @ [Select_projects],
           toasts := toasts c @ [\<lparr>title = ''Error'', description = ''Failed to fetch projects'',
               destructive = True\<rparr>]\<rparr>))"
  by (simp add: fetchTasks_refused fetchProjects_refused toast_error_def)

text \<open>
  C9 as stated fails on a board page that holds three tasks: after a refused read it
  still holds the three tasks, not the empty list.
\<close>

theorem failed_read_keeps_result_counterexample:
  "refuses ex_env_down (length (log ex_ctx)) (Select_tasks ''b1'') = Some ''Failed to fetch''
   \<and> tasks (fst (fetchTasks ex_env_down ''b1'' (ex_page, ex_ctx)))
       = [ex_task ''a'' Todo 0, ex_task ''b'' Todo 1, ex_task ''c'' Done 0]
   \<and> tasks (fst (fetchTasks ex_env_down ''b1'' (ex_page, ex_ctx))) \<noteq> []"
  by (simp add: ex_env_down_def ex_env_def ex_ctx_def ex_page_def send_def toast_call_def
      from_tasks_select_def fetchTasks_def)

text \<open>A store that refuses every request: both reads end with the page as it was and a toast.\<close>

theorem failed_read_keeps_result_witness:
  "fetchTasks ex_env_down ''b1'' (ex_page, ex_ctx) =
     (ex_page, ex_ctx\<lparr>log := [Select_tasks ''b1''],
                      toasts := [\<lparr>title = ''Error'', description = ''Failed to fetch tasks'',
                     destructive = True\<rparr>]\<rparr>)
   \<and> fetchProjects ex_env_down (ex_dash, ex_ctx) =
     (ex_dash\<lparr>loading := False\<rparr>,
      ex_ctx\<lparr>log := [Select_projects], toasts := [\<lparr>title = ''Error'', description = ''Failed to fetch projects'',
               destructive = True\<rparr>]\<rparr>)"
proof -
  have "refuses ex_env_down (length (log ex_ctx)) rq = Some ''Failed to fetch''"
    "log ex_ctx = []" "toasts ex_ctx = []" for rq
    by (simp_all add: ex_env_down_def ex_env_def ex_ctx_def)
  then show ?thesis
    using failed_read_keeps_result [where e = ex_env_down and c = ex_ctx and boardId = "''b1''"
        and err = "''Failed to fetch''" and page = ex_page and dash = ex_dash]
    by simp
qed

subsection \<open>Creating a project\<close>

lemma from_projects_insert_Inr:
  assumes "from_projects_insert e name descr owner c = (Inr project, c1)"
  shows "project = \<lparr>p_id = fresh_uuid e (store c), p_name = name, p_description = Some descr,
             p_owner_id = owner, p_created_at = now e, p_updated_at = now e\<rparr>"
    and "c1 = c\<lparr>log := log c @ [Insert_project name descr owner],
              store := (store c)\<lparr>public_projects := public_projects (store c) @ [project],
                                 serial := Suc (serial (store c))\<rparr>\<rparr>"
  using assms
  by (auto simp: from_projects_insert_def send_def Let_def split: option.splits)

lemma from_project_members_insert_Some:
  assumes "from_project_members_insert e pid uid role c = (Some err, c2)"
  shows "c2 = c\<lparr>log := log c @ [Insert_project_member pid uid role]\<rparr>"
  using assms
  by (auto simp: from_project_members_insert_def send_def Let_def split: option.splits if_splits)

lemma from_project_members_insert_None:
  assumes "from_project_members_insert e pid uid role c = (None, c2)"
  shows "c2 = c\<lparr>log := log c @ [Insert_project_member pid uid role],
              store := (store c)\<lparr>public_project_members := public_project_members (store c) @
                 [\<lparr>pm_id = fresh_uuid e (store c), pm_project_id = pid, pm_user_id = uid,
                   pm_role = role, pm_joined_at = now e\<rparr>],
                 serial := Suc (serial (store c))\<rparr>\<rparr>"
  using assms
  by (auto simp: from_project_members_insert_def send_def Let_def split: option.splits if_splits)

lemma from_boards_insert_Some:
  assumes "from_boards_insert e pid name descr c = (Some err, c3)"
  shows "c3 = c\<lparr>log := log c @ [Insert_board pid name descr]\<rparr>"
  using assms
  by (auto simp: from_boards_insert_def send_def Let_def split: option.splits)

lemma from_boards_insert_None:
  assumes "from_boards_insert e pid name descr c = (None, c3)"
  shows "c3 = c\<lparr>log := log c @ [Insert_board pid name descr],
              store := (store c)\<lparr>public_boards := public_boards (store c) @
                 [\<lparr>b_id = fresh_uuid e (store c), b_project_id = pid, b_name = name,
                   b_description = Some descr, b_position = 0,
                   b_created_at = now e, b_updated_at = now e\<rparr>],
                 serial := Suc (serial (store c))\<rparr>\<rparr>"
  using assms
  by (auto simp: from_boards_insert_def send_def Let_def split: option.splits)

text \<open>
  C4. With a signed-in caller whose insert of the project succeeds (step 1, the project
  owned by the caller), the insert of the membership with role \<^verbatim>\<open>owner\<close> follows (step 2)
  and, if it succeeds, the insert of the board \<^verbatim>\<open>Main Board\<close> (step 3), in this order and
  with no other write. If step 2 fails, the handler ends with a destructive toast titled
  \<^verbatim>\<open>Error\<close> whose description is the error's message, and the store holds the new
  project, no new membership and no new board. If step 3 fails, it ends with such a
  toast for that error, and the store holds the new project and the new membership and
  no new board. If all three succeed, a toast titled \<^verbatim>\<open>Success\<close> is queued, the store
  holds exactly one more project, one more membership (the caller, role \<^verbatim>\<open>owner\<close>) and
  one more board, and the handler goes on to read the projects again.
\<close>

theorem handleCreateProject_steps:
  assumes u: "user e = Some uid"
    and s1: "from_projects_insert e (fst (newProject page)) (snd (newProject page)) uid c
               = (Inr project, c1)"
    and s2: "from_project_members_insert e (p_id project) uid Owner c1 = (r2, c2)"
    and s3: "from_boards_insert e (p_id project) ''Main Board'' ''Default project board'' c2
               = (r3, c3)"
  shows "p_owner_id project = uid
     \<and> (r2 = Some err \<longrightarrow>
          handleCreateProject e (page, c) =
            (page, c2\<lparr>toasts := toasts c2 @
            [\<lparr>title = ''Error'', description = err, destructive = True\<rparr>]\<rparr>)
          \<and> log c2 = log c @ [Insert_project (fst (newProject page)) (snd (newProject page)) uid,
                               Insert_project_member (p_id project) uid Owner]
          \<and> public_projects (store c2) = public_projects (store c) @ [project]
          \<and> public_project_members (store c2) = public_project_members (store c)
          \<and> public_boards (store c2) = public_boards (store c))
     \<and> (r2 = None \<and> r3 = Some err \<longrightarrow>
          handleCreateProject e (page, c) =
            (page, c3\<lparr>toasts := toasts c3 @
            [\<lparr>title = ''Error'', description = err, destructive = True\<rparr>]\<rparr>)
          \<and> log c3 = log c @ [Insert_project (fst (newProject page)) (snd (newProject page)) uid,
                               Insert_project_member (p_id project) uid Owner,
                               Insert_board (p_id project) ''Main Board'' ''Default project board'']
          \<and> public_projects (store c3) = public_projects (store c) @ [project]
          \<and> public_project_members (store c3) = public_project_members (store c) @
               [\<lparr>pm_id = fresh_uuid e (store c1), pm_project_id = p_id project, pm_user_id = uid,
                 pm_role = Owner, pm_joined_at = now e\<rparr>]
          \<and> public_boards (store c3) = public_boards (store c))
     \<and> (r2 = None \<and> r3 = None \<longrightarrow>
          handleCreateProject e (page, c) =
            fetchProjects e (page\<lparr>newProject := ([], []), isCreateDialogOpen := False\<rparr>,
              c3\<lparr>toasts := toasts c3 @
                [\<lparr>title = ''Success'', description = ''Project created successfully!'',
                  destructive = False\<rparr>]\<rparr>)
          \<and> log (snd (handleCreateProject e (page, c))) =
              log c @ [Insert_project (fst (newProject page)) (snd (newProject page)) uid,
                       Insert_project_member (p_id project) uid Owner,
                       Insert_board (p_id project) ''Main Board'' ''Default project board'',
                       Select_projects]
          \<and> public_projects (store (snd (handleCreateProject e (page, c))))
               = public_projects (store c) @ [project]
          \<and> public_project_members (store (snd (handleCreateProject e (page, c))))
               = public_project_members (store c) @
                   [\<lparr>pm_id = fresh_uuid e (store c1), pm_project_id = p_id project,
                     pm_user_id = uid, pm_role = Owner, pm_joined_at = now e\<rparr>]
          \<and> public_boards (store (snd (handleCreateProject e (page, c))))
               = public_boards (store c) @
                   [\<lparr>b_id = fresh_uuid e (store c2), b_project_id = p_id project,
                     b_name = ''Main Board'', b_description = Some ''Default project board'',
                     b_position = 0, b_created_at = now e, b_updated_at = now e\<rparr>])"
proof -
  note p = from_projects_insert_Inr [OF s1]
  have owner: "p_owner_id project = uid" using p(1) by simp
  have fail2: ?thesis if "r2 = Some err"
  proof -
    have c2: "c2 = c1\<lparr>log := log c1 @ [Insert_project_member (p_id project) uid Owner]\<rparr>"
      using from_project_members_insert_Some s2 that by blast
    have "handleCreateProject e (page, c) =
            (page, c2\<lparr>toasts := toasts c2 @
            [\<lparr>title = ''Error'', description = err, destructive = True\<rparr>]\<rparr>)"
      using u s1 s2 that by (simp add: handleCreateProject_def toast_call_def toast_error_def)
    then show ?thesis using that owner c2 p(2) by simp
  qed
  have ok2: ?thesis if r2: "r2 = None"
  proof -
    have c2: "c2 = c1\<lparr>log := log c1 @ [Insert_project_member (p_id project) uid Owner],
              store := (store c1)\<lparr>public_project_members := public_project_members (store c1) @
                 [\<lparr>pm_id = fresh_uuid e (store c1), pm_project_id = p_id project, pm_user_id = uid,
                   pm_role = Owner, pm_joined_at = now e\<rparr>],
                 serial := Suc (serial (store c1))\<rparr>\<rparr>"
      using from_project_members_insert_None s2 r2 by blast
    show ?thesis
    proof (cases r3)
      case None
      have c3: "c3 = c2\<lparr>log := log c2 @
                 [Insert_board (p_id project) ''Main Board'' ''Default project board''],
              store := (store c2)\<lparr>public_boards := public_boards (store c2) @
                 [\<lparr>b_id = fresh_uuid e (store c2), b_project_id = p_id project,
                   b_name = ''Main Board'', b_description = Some ''Default project board'',
                   b_position = 0, b_created_at = now e, b_updated_at = now e\<rparr>],
                 serial := Suc (serial (store c2))\<rparr>\<rparr>"
        using from_boards_insert_None s3 None by blast
      have h: "handleCreateProject e (page, c) =
            fetchProjects e (page\<lparr>newProject := ([], []), isCreateDialogOpen := False\<rparr>,
              c3\<lparr>toasts := toasts c3 @
                [\<lparr>title = ''Success'', description = ''Project created successfully!'',
                  destructive = False\<rparr>]\<rparr>)"
        using u s1 s2 s3 r2 None
        by (simp add: handleCreateProject_def toast_call_def toast_success_def)
      have l: "log c3 = log c @ [Insert_project (fst (newProject page)) (snd (newProject page)) uid,
                       Insert_project_member (p_id project) uid Owner,
                       Insert_board (p_id project) ''Main Board'' ''Default project board'']"
        by (simp add: c3 c2 p(2))
      have st: "public_projects (store c3) = public_projects (store c) @ [project]"
        "public_project_members (store c3) = public_project_members (store c) @
                   [\<lparr>pm_id = fresh_uuid e (store c1), pm_project_id = p_id project,
                     pm_user_id = uid, pm_role = Owner, pm_joined_at = now e\<rparr>]"
        "public_boards (store c3) = public_boards (store c) @
                   [\<lparr>b_id = fresh_uuid e (store c2), b_project_id = p_id project,
                     b_name = ''Main Board'', b_description = Some ''Default project board'',
                     b_position = 0, b_created_at = now e, b_updated_at = now e\<rparr>]"
        by (simp_all add: c3 c2 p(2))
      show ?thesis
        using r2 None owner l st
        by (simp add: h fetchProjects_log fetchProjects_store toast_call_def)
    next
      case (Some err')
      have c3: "c3 = c2\<lparr>log := log c2 @
                 [Insert_board (p_id project) ''Main Board'' ''Default project board'']\<rparr>"
        using from_boards_insert_Some s3 Some by blast
      have h: "handleCreateProject e (page, c) =
            (page, c3\<lparr>toasts := toasts c3 @
            [\<lparr>title = ''Error'', description = err', destructive = True\<rparr>]\<rparr>)"
        using u s1 s2 s3 r2 Some
        by (simp add: handleCreateProject_def toast_call_def toast_error_def)
      show ?thesis
        using r2 Some owner h by (simp add: c3 c2 p(2))
    qed
  qed
  show ?thesis using fail2 ok2 owner by (cases r2) auto
qed

text \<open>
  The caller \<^verbatim>\<open>u1\<close> creates \<^verbatim>\<open>Acme\<close> in a store that already has a project and a board.
  When the store accepts everything, three inserts and one read are sent, and there is
  one more project, one membership (\<^verbatim>\<open>u1\<close>, owner) and one more board. When the store
  refuses the second request, the new project is there, with no membership and no board
  of its own, and the error is the toast.
\<close>

theorem handleCreateProject_steps_witness:
  "map (\<lambda>p. (p_name p, p_owner_id p)) (public_projects (store ex_ctx)) = [(''Acme'', ''u1'')]
   \<and> log (snd (handleCreateProject ex_env (ex_dash, ex_ctx)))
       = [Insert_project ''Acme'' ''d'' ''u1'', Insert_project_member ''id'' ''u1'' Owner,
          Insert_board ''id'' ''Main Board'' ''Default project board'', Select_projects]
   \<and> map (\<lambda>p. (p_id p, p_name p, p_owner_id p))
        (public_projects (store (snd (handleCreateProject ex_env (ex_dash, ex_ctx)))))
       = [(''p1'', ''Acme'', ''u1''), (''id'', ''Acme'', ''u1'')]
   \<and> map (\<lambda>m. (pm_project_id m, pm_user_id m, pm_role m))
        (public_project_members (store (snd (handleCreateProject ex_env (ex_dash, ex_ctx)))))
       = [(''id'', ''u1'', Owner)]
   \<and> map (\<lambda>b. (b_project_id b, b_name b))
        (public_boards (store (snd (handleCreateProject ex_env (ex_dash, ex_ctx)))))
       = [(''p1'', ''Main Board''), (''id'', ''Main Board'')]
   \<and> map (\<lambda>p. (p_id p, p_name p, p_owner_id p))
        (public_projects (store (snd (handleCreateProject ex_env_second (ex_dash, ex_ctx)))))
       = [(''p1'', ''Acme'', ''u1''), (''id'', ''Acme'', ''u1'')]
   \<and> public_project_members (store (snd (handleCreateProject ex_env_second (ex_dash, ex_ctx)))) = []
   \<and> public_boards (store (snd (handleCreateProject ex_env_second (ex_dash, ex_ctx)))) = [ex_board]
   \<and> toasts (snd (handleCreateProject ex_env_second (ex_dash, ex_ctx)))
       = [\<lparr>title = ''Error'', description = ''permission denied'', destructive = True\<rparr>]"
proof -
  let ?P = "\<lparr>p_id = ''id'', p_name = ''Acme'', p_description = Some ''d'', p_owner_id = ''u1'',
             p_created_at = 7, p_updated_at = 7\<rparr>"
  let ?c1 = "ex_ctx\<lparr>log := [Insert_project ''Acme'' ''d'' ''u1''],
      store := ex_db\<lparr>public_projects := [ex_project, ?P], serial := 1\<rparr>\<rparr>"
  let ?c2 = "?c1\<lparr>log := [Insert_project ''Acme'' ''d'' ''u1'', Insert_project_member ''id'' ''u1'' Owner],
      store := (store ?c1)\<lparr>public_project_members :=
        [\<lparr>pm_id = ''id+'', pm_project_id = ''id'', pm_user_id = ''u1'', pm_role = Owner,
          pm_joined_at = 7\<rparr>], serial := 2\<rparr>\<rparr>"
  let ?c3 = "?c2\<lparr>log := [Insert_project ''Acme'' ''d'' ''u1'', Insert_project_member ''id'' ''u1'' Owner,
          Insert_board ''id'' ''Main Board'' ''Default project board''],
      store := (store ?c2)\<lparr>public_boards := [ex_board,
        \<lparr>b_id = ''id++'', b_project_id = ''id'', b_name = ''Main Board'',
          b_description = Some ''Default project board'', b_position = 0,
          b_created_at = 7, b_updated_at = 7\<rparr>], serial := 3\<rparr>\<rparr>"
  let ?f2 = "?c1\<lparr>log := [Insert_project ''Acme'' ''d'' ''u1'', Insert_project_member ''id'' ''u1'' Owner]\<rparr>"
  let ?f3 = "?f2\<lparr>log := [Insert_project ''Acme'' ''d'' ''u1'', Insert_project_member ''id'' ''u1'' Owner,
          Insert_board ''id'' ''Main Board'' ''Default project board''],
      store := (store ?f2)\<lparr>public_boards := [ex_board,
        \<lparr>b_id = ''id+'', b_project_id = ''id'', b_name = ''Main Board'',
          b_description = Some ''Default project board'', b_position = 0,
          b_created_at = 7, b_updated_at = 7\<rparr>], serial := 2\<rparr>\<rparr>"
  note ex = ex_env_def ex_env_second_def ex_ctx_def ex_db_def ex_dash_def ex_project_def
    ex_board_def ex_row_def
  note run = send_def Let_def fresh_uuid_def from_projects_insert_def
    from_project_members_insert_def from_boards_insert_def
  have u: "user ex_env = Some ''u1''" "user ex_env_second = Some ''u1''"
    by (simp_all add: ex)
  have s1: "from_projects_insert ex_env (fst (newProject ex_dash)) (snd (newProject ex_dash)) ''u1'' ex_ctx
      = (Inr ?P, ?c1)"
    by (simp add: ex run)
  have s2: "from_project_members_insert ex_env (p_id ?P) ''u1'' Owner ?c1 = (None, ?c2)"
    by (simp add: ex run)
  have s3: "from_boards_insert ex_env (p_id ?P) ''Main Board'' ''Default project board'' ?c2 = (None, ?c3)"
    by (simp add: ex run eval_nat_numeral)
  have f1: "from_projects_insert ex_env_second (fst (newProject ex_dash)) (snd (newProject ex_dash)) ''u1'' ex_ctx
      = (Inr ?P, ?c1)"
    by (simp add: ex run)
  have f2: "from_project_members_insert ex_env_second (p_id ?P) ''u1'' Owner ?c1
      = (Some ''permission denied'', ?f2)"
    by (simp add: ex run)
  have f3: "from_boards_insert ex_env_second (p_id ?P) ''Main Board'' ''Default project board'' ?f2
      = (None, ?f3)"
    by (simp add: ex run)
  have v: "newProject ex_dash = (''Acme'', ''d'')" "log ex_ctx = []" "toasts ex_ctx = []"
    "public_projects (store ex_ctx) = [ex_project]" "public_project_members (store ex_ctx) = []"
    "public_boards (store ex_ctx) = [ex_board]"
    by (simp_all add: ex)
  show ?thesis
    using handleCreateProject_steps [OF u(1) s1 s2 s3, where err = "''x''"]
      handleCreateProject_steps [OF u(2) f1 f2 f3, where err = "''permission denied''"] v
    by (simp add: toast_call_def ex_project_def ex_board_def fetchProjects_log fetchProjects_store)
qed

subsection \<open>Who sees a project\<close>

lemma fetchProjects_fails:
  "fetchProjects e (dash, c) =
     (dash\<lparr>loading := False\<rparr>,
      c\<lparr>log := log c @ [Select_projects],
        toasts := toasts c @ [\<lparr>title = ''Error'', description = ''Failed to fetch projects'',
                               destructive = True\<rparr>]\<rparr>)"
  by (simp add: fetchProjects_def from_projects_select_def send_def toast_call_def toast_error_def
      split: option.splits)

text \<open>
  C3. The claim says what the policies are named for; the policies do something else.
  Take the store where the project \<^verbatim>\<open>p1\<close> is owned by \<^verbatim>\<open>u1\<close> and has two member rows, of
  \<^verbatim>\<open>u1\<close> (owner) and of \<^verbatim>\<open>u2\<close> (member). The predicate of the policy on \<^verbatim>\<open>projects\<close> admits
  the owner \<^verbatim>\<open>u1\<close>, and does not admit \<^verbatim>\<open>u2\<close>, for whom a member row of the project exists:
  the subquery compares the row's \<^verbatim>\<open>project_id\<close> with the row's own \<^verbatim>\<open>id\<close>. And the listing
  never arrives: the read of the dashboard, sent for the owner \<^verbatim>\<open>u1\<close>, is answered with
  error 42P17, so the dashboard shows no project and the toast of a failed fetch; in
  every state the read leaves the projects of the page as they were.
\<close>

theorem canView_membership_and_listing:
  "p_owner_id ex_project = ''u1''
   \<and> ex_project \<in> set (public_projects ex_db_joined)
   \<and> map (\<lambda>m. (pm_id m, pm_project_id m, pm_user_id m, pm_role m))
        (public_project_members ex_db_joined)
       = [(''m1'', ''p1'', ''u1'', Owner), (''m2'', ''p1'', ''u2'', Member)]
   \<and> canView ''u1'' ex_project (public_project_members ex_db_joined)
   \<and> \<not> canView ''u2'' ex_project (public_project_members ex_db_joined)
   \<and> user ex_env = Some ''u1''
   \<and> fst (from_projects_select ex_env (ex_ctx\<lparr>store := ex_db_joined\<rparr>))
       = Inl ''infinite recursion detected in policy for relation project_members''
   \<and> fetchProjects ex_env (ex_dash, ex_ctx\<lparr>store := ex_db_joined\<rparr>)
       = (ex_dash\<lparr>loading := False\<rparr>,
          ex_ctx\<lparr>store := ex_db_joined, log := [Select_projects],
                 toasts := [\<lparr>title = ''Error'', description = ''Failed to fetch projects'',
                             destructive = True\<rparr>]\<rparr>)
   \<and> projects (fst (fetchProjects ex_env (ex_dash, ex_ctx\<lparr>store := ex_db_joined\<rparr>))) = []
   \<and> projects (fst (fetchProjects e (dash, c))) = projects dash"
proof -
  have rows: "p_owner_id ex_project = ''u1''" "ex_project \<in> set (public_projects ex_db_joined)"
    "map (\<lambda>m. (pm_id m, pm_project_id m, pm_user_id m, pm_role m))
        (public_project_members ex_db_joined)
       = [(''m1'', ''p1'', ''u1'', Owner), (''m2'', ''p1'', ''u2'', Member)]"
    by (simp_all add: ex_project_def ex_db_joined_def ex_db_def ex_member_def)
  have view: "canView ''u1'' ex_project (public_project_members ex_db_joined)"
    "\<not> canView ''u2'' ex_project (public_project_members ex_db_joined)"
    by (simp_all add: canView_def ex_project_def ex_db_joined_def ex_db_def ex_member_def)
  have read: "user ex_env = Some ''u1''"
    "fst (from_projects_select ex_env (ex_ctx\<lparr>store := ex_db_joined\<rparr>))
       = Inl ''infinite recursion detected in policy for relation project_members''"
    by (simp_all add: from_projects_select_def send_def infinite_recursion_def ex_env_def ex_ctx_def)
  have page: "fetchProjects ex_env (ex_dash, ex_ctx\<lparr>store := ex_db_joined\<rparr>)
       = (ex_dash\<lparr>loading := False\<rparr>,
          ex_ctx\<lparr>store := ex_db_joined, log := [Select_projects],
                 toasts := [\<lparr>title = ''Error'', description = ''Failed to fetch projects'',
                             destructive = True\<rparr>]\<rparr>)"
    by (simp add: fetchProjects_fails ex_ctx_def)
  have "projects (fst (fetchProjects ex_env (ex_dash, ex_ctx\<lparr>store := ex_db_joined\<rparr>))) = []"
    by (simp add: fetchProjects_fails ex_dash_def)
  moreover have "projects (fst (fetchProjects e (dash, c))) = projects dash"
    by (simp add: fetchProjects_fails)
  ultimately show ?thesis
    using rows view read page by simp
qed

end
